theory Spec2Isabelle
  imports Main "HOL-Library.Word"
begin

section \<open>Process states, errors and the container runtime\<close>

text \<open>
  The four process states of package \<open>system\<close>, which the power functions pass to
  \<open>setState\<close>.
\<close>

datatype ProcessState =
    ProcessOfflineState
  | ProcessStartingState
  | ProcessRunningState
  | ProcessStoppingState

text \<open>
  Go errors as values. \<open>NotFoundError\<close> is an error of the Docker client for which
  \<open>client.IsErrNotFound\<close> holds, \<open>DaemonError\<close> any other error of the Docker client,
  \<open>OsError\<close> an error of package \<open>os\<close>, \<open>DeadlineExceeded\<close> the value of \<open>ctx.Err()\<close>
  once a context deadline has passed (also what a request or a read under that context
  fails with), \<open>ErrorsNew\<close> the result of \<open>errors.New\<close> and
  \<open>WithStack\<close> the wrapper of \<open>errors.WithStack\<close>. For the installer:
  \<open>ValidationError\<close> is the installer's own validation error, \<open>KeyPathNotFoundError\<close>
  the error of \<open>jsonparser.Get\<close> for a missing key, \<open>UnmarshalError\<close> an error of
  \<open>json.Unmarshal\<close> and \<open>RequestFailed\<close> a transport error of the request to the Panel.
  A nil error is \<open>None\<close>.
\<close>

datatype error =
    NotFoundError string
  | DaemonError string
  | OsError string
  | DeadlineExceeded
  | ErrorsNew string
  | WithStack error
  | ValidationError string
  | KeyPathNotFoundError
  | UnmarshalError string
  | RequestFailed string

text \<open>
  \<open>client.IsErrNotFound\<close> of the Docker client pinned in go.mod: a type assertion on the
  error itself, with no unwrapping.
\<close>

fun IsErrNotFound :: "error \<Rightarrow> bool" where
  "IsErrNotFound (NotFoundError m) = True"
| "IsErrNotFound e = False"

text \<open>\<open>errors.WithStack\<close> returns nil for a nil error.\<close>

fun WithStack_nil :: "error option \<Rightarrow> error option" where
  "WithStack_nil None = None"
| "WithStack_nil (Some err) = Some (WithStack err)"

datatype StopType = ProcessStopCommand | ProcessStopSignal | ProcessStopNative

record ProcessStopConfiguration =
  Type :: StopType
  Value :: string

text \<open>The part of \<open>types.ContainerJSON\<close> the code reads.\<close>

record ContainerJSON =
  State_Running :: bool
  LogPath :: string

text \<open>The outcome of the \<open>select\<close> over the context and the two channels of \<open>ContainerWait\<close>.\<close>

datatype wait_result =
    CtxDone
  | ErrChan "error option"
  | OkChan

text \<open>\<open>container.Config\<close> and \<open>container.HostConfig\<close> as \<open>Create\<close> fills them.\<close>

record Resources =
  Memory :: "64 word"
  MemoryReservation :: "64 word"
  MemorySwap :: "64 word"
  CPUQuota :: "64 word"
  CPUPeriod :: "64 word"
  CPUShares :: "64 word"
  BlkioWeight :: "16 word"
  OomKillDisable :: bool
  CpusetCpus :: string

record Mount =
  Mount_Bind :: bool
  Source :: string
  Target :: string
  ReadOnly :: bool

record Config =
  Hostname :: string
  Domainname :: string
  User :: string
  AttachStdin :: bool
  AttachStdout :: bool
  AttachStderr :: bool
  OpenStdin :: bool
  Tty :: bool
  ExposedPorts :: "string list"
  Image :: string
  Env :: "string list"
  Labels :: "(string \<times> string) list"

record HostConfig =
  PortBindings :: "(string \<times> string list) list"
  Mounts :: "Mount list"
  Tmpfs :: "(string \<times> string) list"
  HostResources :: Resources
  DNS :: "string list"
  LogConfig_Type :: string
  LogConfig_Config :: "(string \<times> string) list"
  SecurityOpt :: "string list"
  ReadonlyRootfs :: bool
  CapDrop :: "string list"
  NetworkMode :: string

text \<open>
  Every call that leaves the environment: to the Docker client, to package \<open>os\<close>, and to
  the two methods of the environment that are not part of the sources at hand
  (\<open>Exists\<close>, \<open>SendCommand\<close>). The arguments are those the code passes; a deadline is in
  seconds, and the three flags of a removal are \<open>RemoveVolumes\<close>, \<open>RemoveLinks\<close> and
  \<open>Force\<close>, in this order.
\<close>

datatype call =
    CallContainerInspect string
  | CallContainerRemove string bool bool bool
  | CallContainerCreate Config HostConfig string
  | CallContainerStart string nat
  | CallContainerStop string nat
  | CallContainerWait string int
  | CallContainerKill string string
  | CallContainerAttach string
  | CallContainerLogs string
  | CallImagePull string string
  | CallImageList
  | CallExists string
  | CallSendCommand string
  | CallStat string
  | CallTruncate string

text \<open>
  The world outside the daemon answers each call. An answer may depend on every call made
  so far (the last element of the list is the call being answered) and is otherwise
  arbitrary, so a theorem for all worlds covers every behaviour of the runtime: failures,
  a container that disappears, a wait that runs into its deadline.

  \<open>ImagePull\<close> answers with an error or with the error (if any) that the scanner meets
  while the response is read to its end. \<open>ImageList\<close> answers with the \<open>RepoTags\<close> of
  each local image.
\<close>

text \<open>
  Modelled from the spec: \<open>Exists\<close> ("returns whether a backing process resource is
  materialized", failing on transport errors) and \<open>SendCommand\<close> ("writes the command to
  the process input stream") are methods of the environment outside the sources at hand;
  they are answered by the world like the runtime calls, with no assumption on the
  answer.
\<close>

record world =
  ContainerInspect :: "call list \<Rightarrow> error + ContainerJSON"
  ContainerRemove :: "call list \<Rightarrow> error option"
  ContainerCreate :: "call list \<Rightarrow> error option"
  ContainerStart :: "call list \<Rightarrow> error option"
  ContainerStop :: "call list \<Rightarrow> error option"
  ContainerWait :: "call list \<Rightarrow> wait_result"
  ContainerKill :: "call list \<Rightarrow> error option"
  ContainerAttach :: "call list \<Rightarrow> error option"
  ContainerLogs :: "call list \<Rightarrow> error option"
  ImagePull :: "call list \<Rightarrow> error + error option"
  ImageList :: "call list \<Rightarrow> error + string list list"
  Exists :: "call list \<Rightarrow> bool \<times> error option"
  SendCommand :: "call list \<Rightarrow> error option"
  os_Stat :: "call list \<Rightarrow> error option"
  os_Truncate :: "call list \<Rightarrow> error option"

section \<open>The environment\<close>

text \<open>
  What \<open>Create\<close> reads from \<open>config.Get()\<close> and from the server configuration
  (\<open>d.Configuration\<close>). The types and methods behind these values are outside the sources
  at hand, so the values they yield are taken as given: \<open>Exposed\<close> and \<open>Bindings\<close> of the
  allocations, \<open>EnvironmentVariables\<close> as a function of the invocation, the mounts, the
  limits (\<open>BoundedMemoryLimit\<close>, \<open>ConvertedSwap\<close> and \<open>ConvertedCpuLimit\<close> already
  computed) and, for each registry, what \<open>Base64\<close> returns.
\<close>

record RegistryConfiguration =
  Base64_value :: string
  Base64_err :: "error option"

record Settings =
  Docker_Domainname :: string
  System_User_Uid :: int
  Docker_Network_Dns :: "string list"
  Docker_Network_Mode :: string
  Docker_Registries :: "(string \<times> RegistryConfiguration) list"
  Allocations_Exposed :: "string list"
  Allocations_Bindings :: "(string \<times> string list) list"
  EnvironmentVariables :: "string \<Rightarrow> string list"
  Configuration_Mounts :: "Mount list"
  Limits_BoundedMemoryLimit :: "64 word"
  Limits_MemoryLimit :: "64 word"
  Limits_ConvertedSwap :: "64 word"
  Limits_ConvertedCpuLimit :: "64 word"
  Limits_IoWeight :: "16 word"
  Limits_OOMDisabled :: bool
  Limits_Threads :: string

datatype log_level = Debug | Warn | Error

text \<open>
  The environment: its container name, image and stop configuration, the process state,
  whether an attach stream is set, and three histories that only grow: the state changes
  published (previous state, new state), the calls made to the world, and the log lines
  written. \<open>invocation\<close> is the startup command handed to \<open>Create\<close> when the container is
  rebuilt before a start.
\<close>

record Environment =
  env_Id :: string
  env_image :: string
  invocation :: string
  meta_Stop :: ProcessStopConfiguration
  st :: ProcessState
  stream :: bool
  changes :: "(ProcessState \<times> ProcessState) list"
  calls :: "call list"
  logs :: "(log_level \<times> string) list"

text \<open>
  Modelled from the spec: \<open>setState\<close> is outside the sources at hand. "Every transition
  publishes a state-change event carrying (previous, new). A transition to the same state
  is a no-op (no event)."
\<close>

definition setState :: "ProcessState \<Rightarrow> Environment \<Rightarrow> Environment" where
  "setState s e =
     (if st e = s then e
      else e\<lparr>st := s, changes := changes e @ [(st e, s)]\<rparr>)"

text \<open>
  Modelled from the spec: \<open>IsAttached\<close> and \<open>SetStream\<close> are outside the sources at hand;
  they read and set the stream handle ("the stream handle cleared").
\<close>

definition IsAttached :: "Environment \<Rightarrow> bool" where
  "IsAttached e = stream e"

definition SetStream :: "bool \<Rightarrow> Environment \<Rightarrow> Environment" where
  "SetStream b e = e\<lparr>stream := b\<rparr>"

definition log_line :: "log_level \<Rightarrow> string \<Rightarrow> Environment \<Rightarrow> Environment" where
  "log_line l m e = e\<lparr>logs := logs e @ [(l, m)]\<rparr>"

text \<open>A call is recorded, then answered by the world from the calls made so far.\<close>

definition perform :: "(call list \<Rightarrow> 'r) \<Rightarrow> call \<Rightarrow> Environment \<Rightarrow> 'r \<times> Environment" where
  "perform answer c e = (let e' = e\<lparr>calls := calls e @ [c]\<rparr> in (answer (calls e'), e'))"

section \<open>Strings of the standard library\<close>

definition HasPrefix :: "string \<Rightarrow> string \<Rightarrow> bool" where
  "HasPrefix s p = (take (length p) s = p)"

definition TrimPrefix :: "string \<Rightarrow> string \<Rightarrow> string" where
  "TrimPrefix s p = (if HasPrefix s p then drop (length p) s else s)"

definition HasSuffix :: "string \<Rightarrow> string \<Rightarrow> bool" where
  "HasSuffix s p = (length p \<le> length s \<and> drop (length s - length p) s = p)"

definition TrimSuffix :: "string \<Rightarrow> string \<Rightarrow> string" where
  "TrimSuffix s p = (if HasSuffix s p then take (length s - length p) s else s)"

fun decimal :: "nat \<Rightarrow> string" where
  "decimal n =
     (if n < 10 then [char_of (48 + n)]
      else decimal (n div 10) @ [char_of (48 + n mod 10)])"

definition Itoa :: "int \<Rightarrow> string" where
  "Itoa i = (if i < 0 then CHR ''-'' # decimal (nat (- i)) else decimal (nat i))"

text \<open>An \<open>os.Signal\<close> is represented by the text its \<open>String\<close> method returns.\<close>

definition os_Kill :: string where
  "os_Kill = ''killed''"

section \<open>Attaching to the container\<close>

text \<open>
  \<open>followOutput\<close>. The goroutine that publishes the log lines to the console topic
  changes neither the state nor the stream and is left out (also what it does with the
  nil reader it is handed when the request for the logs fails).
\<close>

definition followOutput :: "world \<Rightarrow> Environment \<Rightarrow> error option \<times> Environment" where
  "followOutput w e =
     (case perform (Exists w) (CallExists (env_Id e)) e of
        ((exists, err), e1) \<Rightarrow>
          if \<not> exists then
            (case err of
               Some er \<Rightarrow> (Some (WithStack er), e1)
             | None \<Rightarrow> (Some (ErrorsNew (''no such container: '' @ env_Id e1)), e1))
          else
            (case perform (ContainerLogs w) (CallContainerLogs (env_Id e1)) e1 of
               (err', e2) \<Rightarrow> (WithStack_nil err', e2)))"

text \<open>
  \<open>Attach\<close> returns once the stream is set. The goroutine it leaves behind copies the
  stream to the console until the stream closes and then runs \<open>AttachStreamClosed\<close>.
\<close>

definition Attach :: "world \<Rightarrow> Environment \<Rightarrow> error option \<times> Environment" where
  "Attach w e =
     (if IsAttached e then (None, e)
      else
        (case followOutput w e of
           (Some err, e1) \<Rightarrow> (Some (WithStack err), e1)
         | (None, e1) \<Rightarrow>
             (case perform (ContainerAttach w) (CallContainerAttach (env_Id e1)) e1 of
                (Some err, e2) \<Rightarrow> (Some (WithStack err), e2)
              | (None, e2) \<Rightarrow> (None, SetStream True e2))))"

text \<open>The deferred function of the goroutine in \<open>Attach\<close>: it runs when the stream closes.\<close>

definition AttachStreamClosed :: "Environment \<Rightarrow> Environment" where
  "AttachStreamClosed e = SetStream False (setState ProcessOfflineState e)"

section \<open>Creating and destroying the container\<close>

definition resources :: "Settings \<Rightarrow> Resources" where
  "resources cf =
     \<lparr> Memory = Limits_BoundedMemoryLimit cf,
       MemoryReservation = Limits_MemoryLimit cf * 1000000,
       MemorySwap = Limits_ConvertedSwap cf,
       CPUQuota = Limits_ConvertedCpuLimit cf,
       CPUPeriod = 100000,
       CPUShares = 1024,
       BlkioWeight = Limits_IoWeight cf,
       OomKillDisable = Limits_OOMDisabled cf,
       CpusetCpus = Limits_Threads cf \<rparr>"

definition convertMounts :: "Settings \<Rightarrow> Mount list" where
  "convertMounts cf =
     map (\<lambda>m. \<lparr> Mount_Bind = True, Source = Source m, Target = Target m, ReadOnly = ReadOnly m \<rparr>)
       (Configuration_Mounts cf)"

text \<open>
  The loop over the configured registries: the first registry (in the order the map is
  walked, here the order of the list) that is a prefix of the image.
\<close>

fun find_registry :: "string \<Rightarrow> (string \<times> RegistryConfiguration) list \<Rightarrow> RegistryConfiguration option" where
  "find_registry image_ref [] = None"
| "find_registry image_ref ((registry, c) # rs) =
     (if \<not> HasPrefix image_ref registry then find_registry image_ref rs else Some c)"

text \<open>The two nested loops over the local images and their tags.\<close>

fun has_tag :: "string \<Rightarrow> string list \<Rightarrow> bool" where
  "has_tag image_ref [] = False"
| "has_tag image_ref (t # ts) = (if t \<noteq> image_ref then has_tag image_ref ts else True)"

fun tag_exists :: "string \<Rightarrow> string list list \<Rightarrow> bool" where
  "tag_exists image_ref [] = False"
| "tag_exists image_ref (img # images) =
     (if has_tag image_ref img then True else tag_exists image_ref images)"

definition ensureImageExists :: "world \<Rightarrow> Settings \<Rightarrow> string \<Rightarrow> Environment \<Rightarrow> error option \<times> Environment" where
  "ensureImageExists w cf image_ref e =
     (let registryAuth = find_registry image_ref (Docker_Registries cf);
          e0 = (case registryAuth of
                  None \<Rightarrow> e
                | Some c \<Rightarrow>
                    (let ea = log_line Debug ''using authentication for registry'' e
                     in case Base64_err c of
                          Some berr \<Rightarrow> log_line Error ''failed to get registry auth credentials'' ea
                        | None \<Rightarrow> ea));
          auth = (case registryAuth of None \<Rightarrow> [] | Some c \<Rightarrow> Base64_value c)
      in case perform (ImagePull w) (CallImagePull image_ref auth) e0 of
           (Inl err, e1) \<Rightarrow>
             (case perform (ImageList w) CallImageList e1 of
                (Inl ierr, e2) \<Rightarrow> (Some ierr, e2)
              | (Inr images, e2) \<Rightarrow>
                  if tag_exists image_ref images then
                    (None,
                     log_line Warn
                       ''unable to pull requested image from remote source, however the image exists locally''
                       e2)
                  else (Some err, e2))
         | (Inr scan_err, e1) \<Rightarrow>
             (let e2 = log_line Debug ''pulling docker image... this could take a bit of time'' e1
              in case scan_err of
                   Some serr \<Rightarrow> (Some serr, e2)
                 | None \<Rightarrow> (None, e2)))"

definition container_conf :: "Settings \<Rightarrow> string \<Rightarrow> Environment \<Rightarrow> Config" where
  "container_conf cf invoc e =
     \<lparr> Hostname = env_Id e,
       Domainname = Docker_Domainname cf,
       User = Itoa (System_User_Uid cf),
       AttachStdin = True,
       AttachStdout = True,
       AttachStderr = True,
       OpenStdin = True,
       Tty = True,
       ExposedPorts = Allocations_Exposed cf,
       Image = env_image e,
       Env = EnvironmentVariables cf invoc,
       Labels = [(''Service'', ''Pterodactyl''), (''ContainerType'', ''server_process'')] \<rparr>"

definition container_hostConf :: "Settings \<Rightarrow> HostConfig" where
  "container_hostConf cf =
     \<lparr> PortBindings = Allocations_Bindings cf,
       Mounts = convertMounts cf,
       Tmpfs = [(''/tmp'', ''rw,exec,nosuid,size=50M'')],
       HostResources = resources cf,
       DNS = Docker_Network_Dns cf,
       LogConfig_Type = ''json-file'',
       LogConfig_Config = [(''max-size'', ''5m''), (''max-file'', ''1'')],
       SecurityOpt = [''no-new-privileges''],
       ReadonlyRootfs = True,
       CapDrop = [''setpcap'', ''mknod'', ''audit_write'', ''net_raw'', ''dac_override'',
                  ''fowner'', ''fsetid'', ''net_bind_service'', ''sys_chroot'', ''setfcap''],
       NetworkMode = Docker_Network_Mode cf \<rparr>"

definition Create :: "world \<Rightarrow> Settings \<Rightarrow> string \<Rightarrow> Environment \<Rightarrow> error option \<times> Environment" where
  "Create w cf invoc e =
     (case perform (ContainerInspect w) (CallContainerInspect (env_Id e)) e of
        (Inr c, e1) \<Rightarrow> (None, e1)
      | (Inl err, e1) \<Rightarrow>
          if \<not> IsErrNotFound err then (Some (WithStack err), e1)
          else
            (case ensureImageExists w cf (env_image e1) e1 of
               (Some perr, e2) \<Rightarrow> (Some (WithStack perr), e2)
             | (None, e2) \<Rightarrow>
                 (case perform (ContainerCreate w)
                         (CallContainerCreate (container_conf cf invoc e2) (container_hostConf cf) (env_Id e2)) e2 of
                    (Some cerr, e3) \<Rightarrow> (Some (WithStack cerr), e3)
                  | (None, e3) \<Rightarrow> (None, e3))))"

definition Destroy :: "world \<Rightarrow> Environment \<Rightarrow> error option \<times> Environment" where
  "Destroy w e =
     (let e1 = setState ProcessStoppingState e
      in case perform (ContainerRemove w) (CallContainerRemove (env_Id e1) True False True) e1 of
           (err, e2) \<Rightarrow>
             if err \<noteq> None \<and> IsErrNotFound (the err) then (None, e2)
             else (err, setState ProcessOfflineState e2))"

section \<open>Power actions\<close>

text \<open>
  The power functions call \<open>Attach\<close> and \<open>Create\<close> of the environment; the sources at hand
  hold them as methods of \<open>DockerEnvironment\<close>, modelled above.

  \<open>OnBeforeStart\<close> removes the container and creates it again. It calls \<open>Create\<close>
  without an argument; the \<open>Create\<close> at hand takes the invocation, which is the one the
  environment holds.
\<close>

definition OnBeforeStart :: "world \<Rightarrow> Settings \<Rightarrow> Environment \<Rightarrow> error option \<times> Environment" where
  "OnBeforeStart w cf e =
     (case perform (ContainerRemove w) (CallContainerRemove (env_Id e) True False False) e of
        (Some err, e1) \<Rightarrow>
          if \<not> IsErrNotFound err then (Some err, e1)
          else Create w cf (invocation e1) e1
      | (None, e1) \<Rightarrow> Create w cf (invocation e1) e1)"

text \<open>The function that \<open>Start\<close> defers: it runs at every return, with the \<open>sawError\<close> of that moment.\<close>

definition Start_deferred :: "bool \<Rightarrow> Environment \<Rightarrow> Environment" where
  "Start_deferred sawError e =
     (if sawError then setState ProcessOfflineState (setState ProcessStoppingState e) else e)"

text \<open>\<open>Start\<close> from the transition to the starting state on.\<close>

definition Start_chain :: "world \<Rightarrow> Settings \<Rightarrow> Environment \<Rightarrow> error option \<times> Environment" where
  "Start_chain w cf e =
     (let e1 = setState ProcessStartingState e
      in case OnBeforeStart w cf e1 of
           (Some err, e2) \<Rightarrow> (Some (WithStack err), Start_deferred True e2)
         | (None, e2) \<Rightarrow>
             (case perform (ContainerStart w) (CallContainerStart (env_Id e2) 10) e2 of
                (Some err, e3) \<Rightarrow> (Some (WithStack err), Start_deferred True e3)
              | (None, e3) \<Rightarrow>
                  (case Attach w e3 of (r, e4) \<Rightarrow> (r, Start_deferred False e4))))"

definition Start :: "world \<Rightarrow> Settings \<Rightarrow> Environment \<Rightarrow> error option \<times> Environment" where
  "Start w cf e =
     (case perform (ContainerInspect w) (CallContainerInspect (env_Id e)) e of
        (Inl err, e1) \<Rightarrow>
          if \<not> IsErrNotFound err then (Some (WithStack err), Start_deferred False e1)
          else Start_chain w cf e1
      | (Inr c, e1) \<Rightarrow>
          if State_Running c then
            (case Attach w (setState ProcessRunningState e1) of
               (r, e2) \<Rightarrow> (r, Start_deferred False e2))
          else
            (case perform (os_Stat w) (CallStat (LogPath c)) e1 of
               (Some serr, e2) \<Rightarrow> Start_chain w cf e2
             | (None, e2) \<Rightarrow>
                 (case perform (os_Truncate w) (CallTruncate (LogPath c)) e2 of
                    (Some terr, e3) \<Rightarrow> (Some (WithStack terr), Start_deferred False e3)
                  | (None, e3) \<Rightarrow> Start_chain w cf e3)))"

definition Terminate :: "world \<Rightarrow> string \<Rightarrow> Environment \<Rightarrow> error option \<times> Environment" where
  "Terminate w signal e =
     (case perform (ContainerInspect w) (CallContainerInspect (env_Id e)) e of
        (Inl err, e1) \<Rightarrow> (Some (WithStack err), e1)
      | (Inr c, e1) \<Rightarrow>
          if \<not> State_Running c then (None, e1)
          else
            (let e2 = setState ProcessStoppingState e1;
                 sig = TrimSuffix (TrimPrefix signal ''signal '') ''ed''
             in case perform (ContainerKill w) (CallContainerKill (env_Id e2) sig) e2 of
                  (Some kerr, e3) \<Rightarrow> (Some kerr, e3)
                | (None, e3) \<Rightarrow> (None, setState ProcessOfflineState e3)))"

definition Stop :: "world \<Rightarrow> Environment \<Rightarrow> error option \<times> Environment" where
  "Stop w e =
     (let s = meta_Stop e
      in if Type s = ProcessStopSignal then Terminate w os_Kill e
         else
           (let e1 = setState ProcessStoppingState e
            in if IsAttached e1 \<and> Type s = ProcessStopCommand then
                 perform (SendCommand w) (CallSendCommand (Value s)) e1
               else
                 (case perform (ContainerStop w) (CallContainerStop (env_Id e1) 10) e1 of
                    (Some err, e2) \<Rightarrow>
                      if IsErrNotFound err then
                        (None, setState ProcessOfflineState (SetStream False e2))
                      else (Some err, e2)
                  | (None, e2) \<Rightarrow> (None, e2))))"

definition WaitForStop :: "world \<Rightarrow> int \<Rightarrow> bool \<Rightarrow> Environment \<Rightarrow> error option \<times> Environment" where
  "WaitForStop w seconds terminate e =
     (case Stop w e of
        (Some err, e1) \<Rightarrow> (Some (WithStack err), e1)
      | (None, e1) \<Rightarrow>
          (case perform (ContainerWait w) (CallContainerWait (env_Id e1) seconds) e1 of
             (CtxDone, e2) \<Rightarrow>
               if terminate then Terminate w os_Kill e2
               else (Some (WithStack DeadlineExceeded), e2)
           | (ErrChan (Some werr), e2) \<Rightarrow> (Some (WithStack werr), e2)
           | (ErrChan None, e2) \<Rightarrow> (None, e2)
           | (OkChan, e2) \<Rightarrow> (None, e2)))"

definition Restart :: "world \<Rightarrow> Settings \<Rightarrow> Environment \<Rightarrow> error option \<times> Environment" where
  "Restart w cf e =
     (case WaitForStop w 60 False e of
        (Some err, e1) \<Rightarrow> (Some err, e1)
      | (None, e1) \<Rightarrow> Start w cf e1)"

section \<open>The installer\<close>

text \<open>
  The request payload. \<open>jsonparser\<close> reads the bytes of a JSON document; the model
  starts from the document those bytes denote. A number that is not an integer literal
  is \<open>JFloat\<close>, with its text.
\<close>

datatype json =
    JNull
  | JBool bool
  | JNumber int
  | JFloat string
  | JString string
  | JArray "json list"
  | JObject "(string \<times> json) list"

text \<open>
  \<open>jsonparser.Get\<close> with a path of object keys: it descends through objects only (it does
  not look for keys inside arrays). It scans the members of an object in their order; a
  member with the wanted key under which the rest of the path is not found is passed
  over, and the scan goes on to a later member with the same key.
\<close>

fun Get :: "json \<Rightarrow> string list \<Rightarrow> error + json"
  and Get_member :: "(string \<times> json) list \<Rightarrow> string \<Rightarrow> string list \<Rightarrow> error + json" where
  "Get v [] = Inr v"
| "Get (JObject kvs) (k # ks) = Get_member kvs k ks"
| "Get v (k # ks) = Inl KeyPathNotFoundError"
| "Get_member [] k ks = Inl KeyPathNotFoundError"
| "Get_member ((k', v) # kvs) k ks =
     (if k' = k then
        (case Get v ks of
           Inr found \<Rightarrow> Inr found
         | Inl e \<Rightarrow> Get_member kvs k ks)
      else Get_member kvs k ks)"

text \<open>
  \<open>jsonparser.GetString\<close> fails unless the value is a string.
\<close>

definition GetString :: "json \<Rightarrow> string list \<Rightarrow> error + string" where
  "GetString data keys =
     (case Get data keys of
        Inl e \<Rightarrow> Inl e
      | Inr (JString s) \<Rightarrow> Inr s
      | Inr v \<Rightarrow> Inl (UnmarshalError ''Value is not a string''))"

text \<open>
  \<open>jsonparser.GetInt\<close> fails unless the value is a number, and then parses its digits
  with the library's own loop: it accumulates \<open>10 * v + digit\<close> in an \<open>int64\<close>, which wraps
  around, and reports an overflow only when the new value is smaller than the one before
  (\<open>-9223372036854775808\<close> is let through). So a number outside the range is an error
  for most values and a wrapped number for the others.
\<close>

definition wrap64 :: "int \<Rightarrow> int" where
  "wrap64 x = (x + 2 ^ 63) mod 2 ^ 64 - 2 ^ 63"

function digits :: "int \<Rightarrow> int list" where
  "digits n = (if n < 10 then [n] else digits (n div 10) @ [n mod 10])"
  by pat_completeness auto
termination
  by (relation "measure nat") auto

fun parse_loop :: "int \<Rightarrow> int list \<Rightarrow> int \<times> bool" where
  "parse_loop v [] = (v, False)"
| "parse_loop v (c # cs) =
     (let b = wrap64 (10 * v + c)
      in if b < v then (b, True) else parse_loop b cs)"

definition parseInt :: "int \<Rightarrow> error + int" where
  "parseInt n =
     (case parse_loop 0 (digits \<bar>n\<bar>) of
        (b, True) \<Rightarrow>
          if n = - (2 ^ 63) then Inr b
          else Inl (UnmarshalError ''Value is number, but overflowed while parsing'')
      | (v, False) \<Rightarrow> Inr (if n < 0 then - v else v))"

definition GetInt :: "json \<Rightarrow> string list \<Rightarrow> error + int" where
  "GetInt data keys =
     (case Get data keys of
        Inl e \<Rightarrow> Inl e
      | Inr (JNumber n) \<Rightarrow> parseInt n
      | Inr (JFloat t) \<Rightarrow> Inl (UnmarshalError ''Value is number, but not an integer'')
      | Inr v \<Rightarrow> Inl (UnmarshalError ''Value is not a number''))"

text \<open>The two helpers of the installer drop the error: a failed read is the zero value.\<close>

definition getString :: "json \<Rightarrow> string list \<Rightarrow> string" where
  "getString data key = (case GetString data key of Inl e \<Rightarrow> [] | Inr v \<Rightarrow> v)"

definition getInt :: "json \<Rightarrow> string list \<Rightarrow> int" where
  "getInt data key = (case GetInt data key of Inl e \<Rightarrow> 0 | Inr v \<Rightarrow> v)"

text \<open>
  \<open>govalidator.IsUUIDv4\<close> matches the whole string against
  \<^verbatim>\<open>^[0-9a-f]{8}-[0-9a-f]{4}-4[0-9a-f]{3}-[89ab][0-9a-f]{3}-[0-9a-f]{12}$\<close>. In the
  template below \<open>x\<close> stands for a lower-case hexadecimal digit and \<open>y\<close> for one of
  \<open>8\<close>, \<open>9\<close>, \<open>a\<close>, \<open>b\<close>; any other character stands for itself.
\<close>

definition hex_digit :: "char \<Rightarrow> bool" where
  "hex_digit c = (c \<in> set ''0123456789abcdef'')"

fun template_char :: "char \<Rightarrow> char \<Rightarrow> bool" where
  "template_char p c =
     (if p = CHR ''x'' then hex_digit c
      else if p = CHR ''y'' then c \<in> set ''89ab''
      else c = p)"

fun template_match :: "string \<Rightarrow> string \<Rightarrow> bool" where
  "template_match [] [] = True"
| "template_match (p # ps) (c # cs) = (template_char p c \<and> template_match ps cs)"
| "template_match ps cs = False"

definition IsUUIDv4 :: "string \<Rightarrow> bool" where
  "IsUUIDv4 s = template_match ''xxxxxxxx-xxxx-4xxx-yxxx-xxxxxxxxxxxx'' s"

text \<open>
  Modelled from the spec: \<open>NewValidationError\<close> is outside the sources at hand; it builds
  the error of kind "Validation" from its message.
\<close>

definition NewValidationError :: "string \<Rightarrow> error" where
  "NewValidationError msg = ValidationError msg"

text \<open>The part of \<open>server.Configuration\<close> that the constructor fills from the request.\<close>

record Build_Limits =
  Build_MemoryLimit :: int
  Build_Swap :: int
  Build_IoWeight :: "16 word"
  Build_CpuLimit :: int
  Build_DiskSpace :: int
  Build_Threads :: string

record Configuration =
  Uuid :: string
  Suspended :: bool
  Invocation :: string
  Build :: Build_Limits
  CrashDetectionEnabled :: bool
  DefaultMapping_Ip :: string
  DefaultMapping_Port :: int
  Allocations_Mappings :: "(string \<times> int list) list"
  EnvVars :: "(string \<times> json) list"
  Container_Image :: string

text \<open>
  What the constructor calls outside the installer, taken as given: the request to the
  Panel (\<open>api.NewRequester().GetServerConfiguration\<close>, which answers with the
  configuration, the text of a request error if there is one, and a transport error if
  there is one), \<open>server.FromConfiguration\<close>, and \<open>json.Unmarshal\<close> of the value found at a
  key into the variables map and into the mappings.
\<close>

record ('c, 's) externals =
  GetServerConfiguration :: "string \<Rightarrow> 'c \<times> string option \<times> error option"
  FromConfiguration :: "'c \<Rightarrow> 's option \<times> error option"
  Unmarshal_Variables :: "json \<Rightarrow> error + (string \<times> json) list"
  Unmarshal_Mappings :: "json \<Rightarrow> error + (string \<times> int list) list"

record 's Installer =
  server :: "'s option"

definition New :: "('c, 's) externals \<Rightarrow> json \<Rightarrow> 's Installer option \<times> error option" where
  "New x data =
     (if \<not> IsUUIDv4 (getString data [''uuid'']) then
        (None, Some (NewValidationError ''uuid provided was not in a valid format''))
      else if \<not> IsUUIDv4 (getString data [''service'', ''egg'']) then
        (None, Some (NewValidationError ''service egg provided was not in a valid format''))
      else
        (let cfg =
               \<lparr> Uuid = getString data [''uuid''],
                 Suspended = False,
                 Invocation = getString data [''invocation''],
                 Build =
                   \<lparr> Build_MemoryLimit = getInt data [''build'', ''memory''],
                     Build_Swap = getInt data [''build'', ''swap''],
                     Build_IoWeight = word_of_int (getInt data [''build'', ''io'']),
                     Build_CpuLimit = getInt data [''build'', ''cpu''],
                     Build_DiskSpace = getInt data [''build'', ''disk''],
                     Build_Threads = getString data [''build'', ''threads''] \<rparr>,
                 CrashDetectionEnabled = True,
                 DefaultMapping_Ip = getString data [''allocations'', ''default'', ''ip''],
                 DefaultMapping_Port = getInt data [''allocations'', ''default'', ''port''],
                 Allocations_Mappings = [],
                 EnvVars = [],
                 Container_Image = [] \<rparr>
         in case Get data [''environment''] of
              Inl err \<Rightarrow> (None, Some (WithStack err))
            | Inr b \<Rightarrow>
                (case Unmarshal_Variables x b of
                   Inl err \<Rightarrow> (None, Some (WithStack err))
                 | Inr vars \<Rightarrow>
                     (let cfg = cfg\<lparr>EnvVars := vars\<rparr>
                      in case Get data [''allocations'', ''mappings''] of
                           Inl err \<Rightarrow> (None, Some (WithStack err))
                         | Inr b' \<Rightarrow>
                             (case Unmarshal_Mappings x b' of
                                Inl err \<Rightarrow> (None, Some (WithStack err))
                              | Inr ms \<Rightarrow>
                                  (let cfg = cfg\<lparr>Allocations_Mappings := ms,
                                                Container_Image := getString data [''container'', ''image'']\<rparr>
                                   in case GetServerConfiguration x (Uuid cfg) of
                                        (c, rerr, Some err) \<Rightarrow> (None, Some (WithStack err))
                                      | (c, Some rtext, None) \<Rightarrow> (None, Some (ErrorsNew rtext))
                                      | (c, None, None) \<Rightarrow>
                                          (case FromConfiguration x c of
                                             (s, err) \<Rightarrow> (Some \<lparr> server = s \<rparr>, err))))))))"

section \<open>The specification's transition table and operations\<close>

text \<open>The legal transitions, as the specification lists them.\<close>

fun legal :: "ProcessState \<Rightarrow> ProcessState \<Rightarrow> bool" where
  "legal ProcessOfflineState ProcessStartingState = True"
| "legal ProcessStartingState ProcessRunningState = True"
| "legal ProcessStartingState ProcessStoppingState = True"
| "legal ProcessRunningState ProcessStoppingState = True"
| "legal ProcessStoppingState ProcessOfflineState = True"
| "legal ProcessRunningState ProcessOfflineState = True"
| "legal ProcessStartingState ProcessOfflineState = True"
| "legal a b = False"

datatype operation =
    OpStart
  | OpStop
  | OpWaitForStop int bool
  | OpTerminate string
  | OpDestroy
  | OpAttachStreamClosed

fun run_op :: "world \<Rightarrow> Settings \<Rightarrow> operation \<Rightarrow> Environment \<Rightarrow> Environment" where
  "run_op w cf OpStart e = snd (Start w cf e)"
| "run_op w cf OpStop e = snd (Stop w e)"
| "run_op w cf (OpWaitForStop seconds terminate) e = snd (WaitForStop w seconds terminate e)"
| "run_op w cf (OpTerminate signal) e = snd (Terminate w signal e)"
| "run_op w cf OpDestroy e = snd (Destroy w e)"
| "run_op w cf OpAttachStreamClosed e = AttachStreamClosed e"

text \<open>The state changes an operation publishes: what it appends to the history.\<close>

definition new_changes :: "world \<Rightarrow> Settings \<Rightarrow> operation \<Rightarrow> Environment \<Rightarrow> (ProcessState \<times> ProcessState) list" where
  "new_changes w cf op e = drop (length (changes e)) (changes (run_op w cf op e))"

definition new_calls :: "Environment \<Rightarrow> Environment \<Rightarrow> call list" where
  "new_calls e e' = drop (length (calls e)) (calls e')"

text \<open>
  The changes outside the table: the operations that stop the process set the stopping
  state whatever the state is, so they leave the offline state for the stopping state
  (\<open>Stop\<close>, \<open>Terminate\<close> and \<open>Destroy\<close> only as their first change, when they are entered
  offline); \<open>Start\<close> sets the starting state, or the running state for a container that
  already runs, whatever the state it is entered in.
\<close>

fun unguarded :: "operation \<Rightarrow> ProcessState \<Rightarrow> ProcessState \<Rightarrow> ProcessState \<Rightarrow> bool" where
  "unguarded OpStart s a b = (a = s \<and> (b = ProcessStartingState \<or> b = ProcessRunningState))"
| "unguarded (OpWaitForStop seconds terminate) s a b =
     (a = ProcessOfflineState \<and> b = ProcessStoppingState)"
| "unguarded OpAttachStreamClosed s a b = False"
| "unguarded op s a b =
     (s = ProcessOfflineState \<and> a = ProcessOfflineState \<and> b = ProcessStoppingState)"

text \<open>
  The restart of the specification: "\<open>WaitForStop(60, false)\<close> then \<open>Start()\<close>", where
  "then" runs the second action only if the first returned no error.
\<close>

definition and_then ::
  "error option \<times> Environment \<Rightarrow> (Environment \<Rightarrow> error option \<times> Environment) \<Rightarrow> error option \<times> Environment" where
  "and_then r f = (if fst r = None then f (snd r) else r)"

definition Restart_spec :: "world \<Rightarrow> Settings \<Rightarrow> Environment \<Rightarrow> error option \<times> Environment" where
  "Restart_spec w cf e = and_then (WaitForStop w 60 False e) (Start w cf)"

section \<open>Concrete servers and worlds\<close>

text \<open>A world in which every call succeeds and the container exists and is stopped.\<close>

definition calm_world :: world where
  "calm_world =
     \<lparr> ContainerInspect = (\<lambda>cs. Inr \<lparr> State_Running = False, LogPath = ''/var/lib/docker/srv.log'' \<rparr>),
       ContainerRemove = (\<lambda>cs. None),
       ContainerCreate = (\<lambda>cs. None),
       ContainerStart = (\<lambda>cs. None),
       ContainerStop = (\<lambda>cs. None),
       ContainerWait = (\<lambda>cs. OkChan),
       ContainerKill = (\<lambda>cs. None),
       ContainerAttach = (\<lambda>cs. None),
       ContainerLogs = (\<lambda>cs. None),
       ImagePull = (\<lambda>cs. Inr None),
       ImageList = (\<lambda>cs. Inr []),
       Exists = (\<lambda>cs. (True, None)),
       SendCommand = (\<lambda>cs. None),
       os_Stat = (\<lambda>cs. None),
       os_Truncate = (\<lambda>cs. None) \<rparr>"

definition running_container :: "call list \<Rightarrow> error + ContainerJSON" where
  "running_container cs = Inr \<lparr> State_Running = True, LogPath = ''/var/lib/docker/srv.log'' \<rparr>"

definition no_container :: "call list \<Rightarrow> error + ContainerJSON" where
  "no_container cs = Inl (NotFoundError ''No such container: srv'')"

definition plain_settings :: Settings where
  "plain_settings =
     \<lparr> Docker_Domainname = [],
       System_User_Uid = 988,
       Docker_Network_Dns = [''1.1.1.1''],
       Docker_Network_Mode = ''pterodactyl_nw'',
       Docker_Registries = [],
       Allocations_Exposed = [''25565/tcp''],
       Allocations_Bindings = [(''25565/tcp'', [''0.0.0.0:25565''])],
       EnvironmentVariables = (\<lambda>i. [''STARTUP='' @ i]),
       Configuration_Mounts = [],
       Limits_BoundedMemoryLimit = 1024,
       Limits_MemoryLimit = 1024,
       Limits_ConvertedSwap = 0,
       Limits_ConvertedCpuLimit = 100000,
       Limits_IoWeight = 500,
       Limits_OOMDisabled = False,
       Limits_Threads = [] \<rparr>"

definition offline_server :: Environment where
  "offline_server =
     \<lparr> env_Id = ''srv'', env_image = ''quay.io/games/mc:latest'', invocation = ''./start.sh'',
       meta_Stop = \<lparr> Type = ProcessStopNative, Value = ''stop'' \<rparr>,
       st = ProcessOfflineState, stream = False, changes = [], calls = [], logs = [] \<rparr>"

definition running_server :: Environment where
  "running_server = offline_server\<lparr> st := ProcessRunningState, stream := True \<rparr>"

text \<open>Payloads and a Panel for the installer.\<close>

definition full_payload :: json where
  "full_payload =
     JObject
       [(''uuid'', JString ''0b6a1b0e-7c1d-4f5a-9c3e-2f1d5a6b7c8d''),
        (''service'', JObject [(''egg'', JString ''5d9c2a10-3b4e-4a6f-8b7c-1e2d3c4b5a69'')]),
        (''invocation'', JString ''java -jar server.jar''),
        (''build'', JObject [(''memory'', JNumber 1024), (''io'', JNumber 500)]),
        (''environment'', JObject [(''EULA'', JString ''true'')]),
        (''allocations'', JObject [(''mappings'', JObject [(''0.0.0.0'', JArray [JNumber 25565])])]),
        (''container'', JObject [(''image'', JString ''quay.io/games/mc:latest'')])]"

definition bare_payload :: json where
  "bare_payload =
     JObject
       [(''uuid'', JString ''0b6a1b0e-7c1d-4f5a-9c3e-2f1d5a6b7c8d''),
        (''service'', JObject [(''egg'', JString ''5d9c2a10-3b4e-4a6f-8b7c-1e2d3c4b5a69'')])]"

definition other_payload :: json where
  "other_payload =
     JObject
       [(''uuid'', JString ''0b6a1b0e-7c1d-4f5a-9c3e-2f1d5a6b7c8d''),
        (''service'', JObject [(''egg'', JString ''5d9c2a10-3b4e-4a6f-8b7c-1e2d3c4b5a69'')]),
        (''invocation'', JString ''rm -rf /''),
        (''build'', JObject [(''memory'', JNumber 999999)]),
        (''environment'', JObject []),
        (''allocations'', JObject [(''mappings'', JObject [])]),
        (''container'', JObject [(''image'', JString ''evil/image:latest'')])]"

definition bad_uuid_payload :: json where
  "bad_uuid_payload =
     JObject
       [(''uuid'', JString ''not-a-uuid''),
        (''service'', JObject [(''egg'', JString ''5d9c2a10-3b4e-4a6f-8b7c-1e2d3c4b5a69'')]),
        (''environment'', JObject []),
        (''allocations'', JObject [(''mappings'', JObject [])])]"

text \<open>Payloads that lack a part of the full payload.\<close>

definition lean_payload :: json where
  "lean_payload =
     JObject
       [(''uuid'', JString ''0b6a1b0e-7c1d-4f5a-9c3e-2f1d5a6b7c8d''),
        (''service'', JObject [(''egg'', JString ''5d9c2a10-3b4e-4a6f-8b7c-1e2d3c4b5a69'')]),
        (''environment'', JObject [(''EULA'', JString ''true'')]),
        (''allocations'', JObject [(''mappings'', JObject [(''0.0.0.0'', JArray [JNumber 25565])])])]"

definition no_mappings_payload :: json where
  "no_mappings_payload =
     JObject
       [(''uuid'', JString ''0b6a1b0e-7c1d-4f5a-9c3e-2f1d5a6b7c8d''),
        (''service'', JObject [(''egg'', JString ''5d9c2a10-3b4e-4a6f-8b7c-1e2d3c4b5a69'')]),
        (''environment'', JObject [(''EULA'', JString ''true'')]),
        (''allocations'', JObject [(''default'', JObject [(''ip'', JString ''0.0.0.0'')])])]"

fun objects_only :: "json \<Rightarrow> error + (string \<times> json) list" where
  "objects_only (JObject kvs) = Inr kvs"
| "objects_only v = Inl (UnmarshalError ''cannot unmarshal into Go value of type map'')"

definition test_panel :: "(string, string) externals" where
  "test_panel =
     \<lparr> GetServerConfiguration = (\<lambda>uuid. (''configuration of '' @ uuid, None, None)),
       FromConfiguration = (\<lambda>c. (Some (''server from '' @ c), None)),
       Unmarshal_Variables = objects_only,
       Unmarshal_Mappings = (\<lambda>v. case objects_only v of Inl e \<Rightarrow> Inl e | Inr kvs \<Rightarrow> Inr []) \<rparr>"

text \<open>Worlds in which one call fails.\<close>

definition stop_refused :: world where
  "stop_refused = calm_world\<lparr> ContainerStop := (\<lambda>cs. Some (DaemonError ''cannot stop container'')) \<rparr>"

definition gone_world :: world where
  "gone_world = calm_world\<lparr> ContainerRemove := (\<lambda>cs. Some (NotFoundError ''No such container: srv'')) \<rparr>"

definition daemon_down :: world where
  "daemon_down =
     calm_world\<lparr> ContainerInspect := (\<lambda>cs. Inl (DaemonError ''Cannot connect to the Docker daemon'')) \<rparr>"

definition start_refused :: world where
  "start_refused =
     calm_world\<lparr> ContainerStart := (\<lambda>cs. Some (DaemonError ''driver failed programming external connectivity'')) \<rparr>"

definition already_running :: world where
  "already_running = calm_world\<lparr> ContainerInspect := running_container \<rparr>"

definition registry_down :: world where
  "registry_down =
     calm_world\<lparr> ContainerInspect := no_container,
       ImagePull := (\<lambda>cs. Inl (DaemonError ''net/http: request canceled while waiting for connection'')),
       ImageList := (\<lambda>cs. Inr [[''alpine:3''], [''quay.io/games/mc:1.15'', ''quay.io/games/mc:latest'']]) \<rparr>"

text \<open>
  A world that keeps track of the container: whether it exists and whether it runs follow
  from the calls made so far, starting from a running container. Every call succeeds,
  except that a container that does not exist is reported as not found.
\<close>

fun container_after :: "bool \<times> bool \<Rightarrow> call \<Rightarrow> bool \<times> bool" where
  "container_after (present, up) (CallContainerRemove i v l f) = (False, False)"
| "container_after (present, up) (CallContainerCreate c h i) = (True, False)"
| "container_after (present, up) (CallContainerStart i t) = (present, present)"
| "container_after (present, up) (CallContainerStop i t) = (present, False)"
| "container_after (present, up) (CallContainerKill i s) = (present, False)"
| "container_after (present, up) c = (present, up)"

definition container_before :: "call list \<Rightarrow> bool \<times> bool" where
  "container_before cs = foldl container_after (True, True) (butlast cs)"

definition if_present :: "call list \<Rightarrow> error option" where
  "if_present cs =
     (if fst (container_before cs) then None else Some (NotFoundError ''No such container: srv''))"

definition tracking_world :: world where
  "tracking_world =
     calm_world\<lparr>
       ContainerInspect :=
         (\<lambda>cs. if fst (container_before cs)
               then Inr \<lparr> State_Running = snd (container_before cs), LogPath = ''/var/lib/docker/srv.log'' \<rparr>
               else Inl (NotFoundError ''No such container: srv'')),
       ContainerRemove := if_present,
       ContainerStart := if_present,
       ContainerStop := if_present,
       ContainerKill := if_present,
       Exists := (\<lambda>cs. (fst (container_before cs), None)) \<rparr>"

text \<open>
  The environment while a first \<open>Restart\<close> waits for the container to stop: it has set the
  stopping state, asked the runtime to stop the container and is blocked in the wait.
\<close>

definition restart_in_progress :: Environment where
  "restart_in_progress =
     running_server\<lparr> st := ProcessStoppingState,
       changes := [(ProcessRunningState, ProcessStoppingState)],
       calls := [CallContainerStop ''srv'' 10, CallContainerWait ''srv'' 60] \<rparr>"

text \<open>
  Worlds for the deadline of a wait and for a pull that breaks off: the deadline error
  arrives on the error channel of the wait; the pull of the image starts but its response
  cannot be read to the end (the local images hold the image all the same); the start of
  the container fails while the
  container is reported missing to \<open>Exists\<close>; the attach request fails.
\<close>

definition wait_error_at_deadline :: world where
  "wait_error_at_deadline =
     calm_world\<lparr> ContainerInspect := running_container,
       ContainerWait := (\<lambda>cs. ErrChan (Some DeadlineExceeded)) \<rparr>"

definition pull_breaks_off :: world where
  "pull_breaks_off = registry_down\<lparr> ImagePull := (\<lambda>cs. Inr (Some DeadlineExceeded)) \<rparr>"

definition start_refused_no_console :: world where
  "start_refused_no_console = start_refused\<lparr> Exists := (\<lambda>cs. (False, None)) \<rparr>"

definition attach_refused :: world where
  "attach_refused = calm_world\<lparr> ContainerAttach := (\<lambda>cs. Some (DaemonError ''cannot attach to container'')) \<rparr>"

section \<open>Notions used in the statements\<close>

text \<open>
  The calls that \<open>Attach\<close> makes (through \<open>followOutput\<close> and on its own). An error of
  \<open>Attach\<close> is returned right after one of them; every other error of \<open>Start\<close> is returned
  right after a call of another kind.
\<close>

fun attach_call :: "call \<Rightarrow> bool" where
  "attach_call (CallExists i) = True"
| "attach_call (CallContainerLogs i) = True"
| "attach_call (CallContainerAttach i) = True"
| "attach_call c = False"

text \<open>
  Two environments differ only in what was exchanged with the world: the calls made and
  the lines logged.
\<close>

definition only_io :: "Environment \<Rightarrow> Environment \<Rightarrow> bool" where
  "only_io e e' =
     (st e' = st e \<and> changes e' = changes e \<and> stream e' = stream e
      \<and> env_Id e' = env_Id e \<and> env_image e' = env_image e \<and> invocation e' = invocation e
      \<and> meta_Stop e' = meta_Stop e)"

text \<open>
  The registry credentials \<open>ensureImageExists\<close> sends with the pull, and the warning it logs
  when the pull fails and the image is found locally.
\<close>

definition registry_auth :: "Settings \<Rightarrow> string \<Rightarrow> string" where
  "registry_auth cf image_ref =
     (case find_registry image_ref (Docker_Registries cf) of None \<Rightarrow> [] | Some c \<Rightarrow> Base64_value c)"

definition local_image_warning :: string where
  "local_image_warning =
     ''unable to pull requested image from remote source, however the image exists locally''"

text \<open>
  The changes published when the states \<open>ts\<close> are set one after the other from state \<open>s\<close>
  (setting the state that is already there publishes nothing), and an environment reached
  from another by setting these states.
\<close>

fun trail :: "ProcessState \<Rightarrow> ProcessState list \<Rightarrow> (ProcessState \<times> ProcessState) list" where
  "trail s [] = []"
| "trail s (t # ts) = (if s = t then trail t ts else (s, t) # trail t ts)"

definition follows :: "ProcessState list \<Rightarrow> Environment \<Rightarrow> Environment \<Rightarrow> bool" where
  "follows ts e e' = (changes e' = changes e @ trail (st e) ts \<and> st e' = last (st e # ts))"

text \<open>
  The installer of the specification: it "fetches authoritative server configuration from
  the Panel using \<open>uuid\<close>" and "constructs the Server object from it".
\<close>

definition server_from_panel :: "('c, 's) externals \<Rightarrow> string \<Rightarrow> 's Installer option \<times> error option" where
  "server_from_panel x uuid =
     (case GetServerConfiguration x uuid of
        (c, rerr, Some err) \<Rightarrow> (None, Some (WithStack err))
      | (c, Some rtext, None) \<Rightarrow> (None, Some (ErrorsNew rtext))
      | (c, None, None) \<Rightarrow>
          (case FromConfiguration x c of (s, err) \<Rightarrow> (Some \<lparr> server = s \<rparr>, err)))"

text \<open>
  A payload parses when both identifiers are version-4 UUIDs and the two values that the
  constructor decodes are present and accepted by \<open>json.Unmarshal\<close>.
\<close>

definition decodes :: "(json \<Rightarrow> error + 'a) \<Rightarrow> json \<Rightarrow> string list \<Rightarrow> bool" where
  "decodes unmarshal d keys =
     (case Get d keys of
        Inl err \<Rightarrow> False
      | Inr b \<Rightarrow> (case unmarshal b of Inl err \<Rightarrow> False | Inr v \<Rightarrow> True))"

definition parses :: "('c, 's) externals \<Rightarrow> json \<Rightarrow> bool" where
  "parses x d =
     (IsUUIDv4 (getString d [''uuid'']) \<and> IsUUIDv4 (getString d [''service'', ''egg''])
      \<and> decodes (Unmarshal_Variables x) d [''environment'']
      \<and> decodes (Unmarshal_Mappings x) d [''allocations'', ''mappings''])"

section \<open>Unfolding the concrete worlds, servers and payloads\<close>

lemmas world_defs = calm_world_def gone_world_def daemon_down_def start_refused_def already_running_def
  wait_error_at_deadline_def pull_breaks_off_def attach_refused_def
  start_refused_no_console_def
  registry_down_def stop_refused_def
  running_container_def no_container_def

lemmas server_defs = offline_server_def running_server_def restart_in_progress_def

lemmas step_defs = perform_def setState_def SetStream_def IsAttached_def log_line_def Let_def

lemmas payload_defs = full_payload_def bare_payload_def other_payload_def bad_uuid_payload_def
  lean_payload_def no_mappings_payload_def

lemmas read_defs = getString_def GetString_def IsUUIDv4_def hex_digit_def

section \<open>What the helpers leave untouched\<close>

lemma ensureImageExists_only_io:
  "ensureImageExists w cf i e = (r, e') \<Longrightarrow> only_io e e'"
  unfolding ensureImageExists_def Let_def only_io_def perform_def log_line_def
  by (auto split: option.splits sum.splits prod.splits if_splits)

lemma Create_only_io:
  "Create w cf i e = (r, e') \<Longrightarrow> only_io e e'"
  unfolding Create_def
  by (auto split: option.splits sum.splits prod.splits if_splits
        simp: perform_def Let_def only_io_def dest!: ensureImageExists_only_io)

lemma OnBeforeStart_only_io:
  "OnBeforeStart w cf e = (r, e') \<Longrightarrow> only_io e e'"
  unfolding OnBeforeStart_def
  by (auto split: option.splits sum.splits prod.splits if_splits
        simp: perform_def Let_def only_io_def dest!: Create_only_io)

lemma followOutput_only_io:
  "followOutput w e = (r, e') \<Longrightarrow> only_io e e'"
  unfolding followOutput_def
  by (auto split: option.splits sum.splits prod.splits if_splits
        simp: perform_def Let_def only_io_def)

lemma Attach_frame:
  "Attach w e = (r, e') \<Longrightarrow>
     st e' = st e \<and> changes e' = changes e \<and> env_Id e' = env_Id e \<and> meta_Stop e' = meta_Stop e"
  unfolding Attach_def
  by (auto split: option.splits sum.splits prod.splits if_splits
        simp: perform_def Let_def only_io_def SetStream_def IsAttached_def dest!: followOutput_only_io)

section \<open>Restarting\<close>

text \<open>
  Claim C4. A call of \<open>Restart\<close> is \<open>WaitForStop(60, false)\<close> followed by \<open>Start\<close>: it
  equals the restart of the specification; when \<open>WaitForStop\<close> returns an error,
  \<open>Restart\<close> returns that error in the state \<open>WaitForStop\<close> left, so \<open>Start\<close> has not run;
  otherwise it is \<open>Start\<close> run in that state.
\<close>

theorem Restart_is_WaitForStop_then_Start:
  "Restart w cf e = Restart_spec w cf e
   \<and> (\<forall>err e1. WaitForStop w 60 False e = (Some err, e1) \<longrightarrow> Restart w cf e = (Some err, e1))
   \<and> (\<forall>e1. WaitForStop w 60 False e = (None, e1) \<longrightarrow> Restart w cf e = Start w cf e1)"
  by (auto simp: Restart_def Restart_spec_def and_then_def split: prod.splits option.splits)

theorem Restart_is_WaitForStop_then_Start_witness:
  "WaitForStop stop_refused 60 False running_server =
     (Some (WithStack (DaemonError ''cannot stop container'')),
      running_server\<lparr> st := ProcessStoppingState,
         changes := [(ProcessRunningState, ProcessStoppingState)],
         calls := [CallContainerStop ''srv'' 10] \<rparr>)
   \<and> Restart stop_refused plain_settings running_server =
     (Some (WithStack (DaemonError ''cannot stop container'')),
      running_server\<lparr> st := ProcessStoppingState,
         changes := [(ProcessRunningState, ProcessStoppingState)],
         calls := [CallContainerStop ''srv'' 10] \<rparr>)
   \<and> WaitForStop calm_world 60 False running_server =
     (None,
      running_server\<lparr> st := ProcessStoppingState,
         changes := [(ProcessRunningState, ProcessStoppingState)],
         calls := [CallContainerStop ''srv'' 10, CallContainerWait ''srv'' 60] \<rparr>)
   \<and> Restart calm_world plain_settings running_server =
     Start calm_world plain_settings
       (running_server\<lparr> st := ProcessStoppingState,
         changes := [(ProcessRunningState, ProcessStoppingState)],
         calls := [CallContainerStop ''srv'' 10, CallContainerWait ''srv'' 60] \<rparr>)"
proof -
  have refused: "WaitForStop stop_refused 60 False running_server =
     (Some (WithStack (DaemonError ''cannot stop container'')),
      running_server\<lparr> st := ProcessStoppingState,
         changes := [(ProcessRunningState, ProcessStoppingState)],
         calls := [CallContainerStop ''srv'' 10] \<rparr>)"
    by (simp add: WaitForStop_def Stop_def stop_refused_def calm_world_def running_server_def
          offline_server_def setState_def perform_def IsAttached_def)
  have stopped: "WaitForStop calm_world 60 False running_server =
     (None,
      running_server\<lparr> st := ProcessStoppingState,
         changes := [(ProcessRunningState, ProcessStoppingState)],
         calls := [CallContainerStop ''srv'' 10, CallContainerWait ''srv'' 60] \<rparr>)"
    by (simp add: WaitForStop_def Stop_def calm_world_def running_server_def
          offline_server_def setState_def perform_def IsAttached_def)
  from refused Restart_is_WaitForStop_then_Start [of stop_refused plain_settings running_server]
  have a: "Restart stop_refused plain_settings running_server =
     (Some (WithStack (DaemonError ''cannot stop container'')),
      running_server\<lparr> st := ProcessStoppingState,
         changes := [(ProcessRunningState, ProcessStoppingState)],
         calls := [CallContainerStop ''srv'' 10] \<rparr>)"
    by blast
  from stopped Restart_is_WaitForStop_then_Start [of calm_world plain_settings running_server]
  have b: "Restart calm_world plain_settings running_server =
     Start calm_world plain_settings
       (running_server\<lparr> st := ProcessStoppingState,
         changes := [(ProcessRunningState, ProcessStoppingState)],
         calls := [CallContainerStop ''srv'' 10, CallContainerWait ''srv'' 60] \<rparr>)"
    by blast
  show ?thesis
    by (intro conjI) (rule refused, rule a, rule stopped, rule b)
qed

text \<open>
  Claim C3. The comment of \<open>Restart\<close> promises an error "if there is already a restart
  process executing for the server", but \<open>Restart\<close> reads no such flag. Here a second
  \<open>Restart\<close> is called while a first one is blocked waiting for the container to stop:
  the second call returns no error and runs its own cycle, asking the runtime to stop
  the container again, waiting, and removing, creating and starting the container.
\<close>

theorem Restart_during_restart_runs_again:
  "Restart tracking_world plain_settings restart_in_progress =
     (None,
      restart_in_progress\<lparr> st := ProcessStartingState,
        changes := [(ProcessRunningState, ProcessStoppingState),
                    (ProcessStoppingState, ProcessStartingState)],
        calls := [CallContainerStop ''srv'' 10, CallContainerWait ''srv'' 60,
                  CallContainerStop ''srv'' 10, CallContainerWait ''srv'' 60,
                  CallContainerInspect ''srv'',
                  CallStat ''/var/lib/docker/srv.log'', CallTruncate ''/var/lib/docker/srv.log'',
                  CallContainerRemove ''srv'' True False False,
                  CallContainerInspect ''srv'',
                  CallImagePull ''quay.io/games/mc:latest'' [],
                  CallContainerCreate (container_conf plain_settings ''./start.sh'' restart_in_progress)
                    (container_hostConf plain_settings) ''srv'',
                  CallContainerStart ''srv'' 10],
        logs := [(Debug, ''pulling docker image... this could take a bit of time'')] \<rparr>)"
  by (simp add: Restart_def WaitForStop_def Stop_def Start_def Start_chain_def Start_deferred_def
        OnBeforeStart_def Create_def ensureImageExists_def Attach_def container_conf_def
        tracking_world_def container_before_def if_present_def plain_settings_def
        world_defs server_defs step_defs)

section \<open>Calls only accumulate\<close>

lemma ensureImageExists_calls:
  "ensureImageExists w cf i e = (r, e') \<Longrightarrow> \<exists>rest. calls e' = calls e @ rest"
  unfolding ensureImageExists_def Let_def perform_def log_line_def
  by (auto split: option.splits sum.splits prod.splits if_splits)

lemma Create_calls:
  "Create w cf i e = (r, e') \<Longrightarrow> \<exists>rest. calls e' = calls e @ rest"
  unfolding Create_def
  by (auto split: option.splits sum.splits prod.splits if_splits
        simp: perform_def Let_def dest!: ensureImageExists_calls)

lemma OnBeforeStart_calls:
  "OnBeforeStart w cf e = (r, e') \<Longrightarrow>
     \<exists>rest. calls e' = calls e @ CallContainerRemove (env_Id e) True False False # rest"
  unfolding OnBeforeStart_def
  by (auto split: option.splits sum.splits prod.splits if_splits
        simp: perform_def Let_def dest!: Create_calls)

section \<open>Errors of Start\<close>

lemma Attach_error_last_call:
  "Attach w e = (Some err, e') \<Longrightarrow> calls e' \<noteq> [] \<and> attach_call (last (calls e'))"
  unfolding Attach_def followOutput_def
  by (auto simp: perform_def Let_def SetStream_def split: if_splits prod.splits option.splits)

lemma Start_chain_error:
  assumes "Start_chain w cf e = (Some err, e')" and "\<not> attach_call (last (calls e'))"
  shows "st e' = ProcessOfflineState
       \<and> (\<exists>cs. changes e' = cs @ [(ProcessStartingState, ProcessStoppingState),
                                   (ProcessStoppingState, ProcessOfflineState)])
       \<and> (\<exists>rest. calls e' = calls e @ CallContainerRemove (env_Id e) True False False # rest)"
proof (cases "OnBeforeStart w cf (setState ProcessStartingState e)")
  case (Pair r2 e2)
  from OnBeforeStart_only_io [OF Pair] have io: "st e2 = ProcessStartingState"
      "changes e2 = changes (setState ProcessStartingState e)"
    by (auto simp: only_io_def setState_def)
  from OnBeforeStart_calls [OF Pair] obtain rest where
    c2: "calls e2 = calls e @ CallContainerRemove (env_Id e) True False False # rest"
    by (auto simp: setState_def split: if_splits)
  show ?thesis
  proof (cases r2)
    case (Some oerr)
    with assms(1) Pair io c2 show ?thesis
      by (auto simp: Start_chain_def Start_deferred_def setState_def Let_def)
  next
    case None
    show ?thesis
    proof (cases "ContainerStart w (calls e2 @ [CallContainerStart (env_Id e2) 10])")
      case started: None
      obtain r4 e4 where att: "Attach w (e2\<lparr>calls := calls e2 @ [CallContainerStart (env_Id e2) 10]\<rparr>) = (r4, e4)"
        by (cases "Attach w (e2\<lparr>calls := calls e2 @ [CallContainerStart (env_Id e2) 10]\<rparr>)") auto
      with assms(1) Pair None started have "r4 = Some err" "e' = e4"
        by (auto simp: Start_chain_def Start_deferred_def Let_def perform_def)
      with att Attach_error_last_call assms(2) show ?thesis by blast
    next
      case (Some serr)
      with assms(1) Pair None io c2 show ?thesis
        by (auto simp: Start_chain_def Start_deferred_def setState_def Let_def perform_def)
    qed
  qed
qed

text \<open>
  Claim C2, as amended. \<open>Start\<close> sets \<open>sawError\<close> only once it has set the starting state,
  and clears it before the last attach. So, for every run of \<open>Start\<close> that returns an
  error other than an error of \<open>Attach\<close> (the last call made is not one of the calls of
  \<open>Attach\<close>), whatever the world answers: when the error is returned after \<open>Start\<close> has
  begun the chain (the removal of the container in \<open>OnBeforeStart\<close> is its first call),
  the state is offline and the last two changes are starting to stopping and stopping to
  offline; when it is returned before that (the inspection or the truncation of the log
  failed), state and changes are as \<open>Start\<close> found them.
\<close>

theorem Start_error_state:
  assumes "Start w cf e = (Some err, e')" and "\<not> attach_call (last (calls e'))"
  shows "if CallContainerRemove (env_Id e) True False False \<in> set (new_calls e e')
         then st e' = ProcessOfflineState
              \<and> (\<exists>cs. changes e' = cs @ [(ProcessStartingState, ProcessStoppingState),
                                          (ProcessStoppingState, ProcessOfflineState)])
         else st e' = st e \<and> changes e' = changes e"
proof -
  have chain: "st e' = ProcessOfflineState
       \<and> (\<exists>cs. changes e' = cs @ [(ProcessStartingState, ProcessStoppingState),
                                   (ProcessStoppingState, ProcessOfflineState)])
       \<and> CallContainerRemove (env_Id e) True False False \<in> set (new_calls e e')"
    if "Start_chain w cf e1 = (Some err, e')" and "\<exists>pre. calls e1 = calls e @ pre" and "env_Id e1 = env_Id e"
    for e1
    using Start_chain_error [OF that(1) assms(2)] that(2,3)
    by (auto simp: new_calls_def)
  have att: False if "Attach w e0 = (Some err, e')" for e0
    using Attach_error_last_call [OF that] assms(2) by simp
  show ?thesis
    using assms(1)
    unfolding Start_def
    by (auto simp: perform_def Let_def Start_deferred_def new_calls_def
          split: sum.splits if_splits option.splits prod.splits
          dest!: chain att)
qed

theorem Start_error_state_witness:
  "Start start_refused_no_console plain_settings offline_server =
     (Some (WithStack (DaemonError ''driver failed programming external connectivity'')),
      offline_server\<lparr>
        changes := [(ProcessOfflineState, ProcessStartingState),
                    (ProcessStartingState, ProcessStoppingState),
                    (ProcessStoppingState, ProcessOfflineState)],
        calls := [CallContainerInspect ''srv'',
                  CallStat ''/var/lib/docker/srv.log'', CallTruncate ''/var/lib/docker/srv.log'',
                  CallContainerRemove ''srv'' True False False,
                  CallContainerInspect ''srv'',
                  CallContainerStart ''srv'' 10] \<rparr>)
   \<and> \<not> attach_call (last (calls (snd (Start start_refused_no_console plain_settings offline_server))))
   \<and> st (snd (Start start_refused_no_console plain_settings offline_server)) = ProcessOfflineState
   \<and> (\<exists>cs. changes (snd (Start start_refused_no_console plain_settings offline_server)) =
             cs @ [(ProcessStartingState, ProcessStoppingState),
                   (ProcessStoppingState, ProcessOfflineState)])
   \<and> Start daemon_down plain_settings running_server =
     (Some (WithStack (DaemonError ''Cannot connect to the Docker daemon'')),
      running_server\<lparr> calls := [CallContainerInspect ''srv''] \<rparr>)
   \<and> st (snd (Start daemon_down plain_settings running_server)) = st running_server
   \<and> changes (snd (Start daemon_down plain_settings running_server)) = changes running_server"
proof -
  have run: "Start start_refused_no_console plain_settings offline_server =
     (Some (WithStack (DaemonError ''driver failed programming external connectivity'')),
      offline_server\<lparr>
        changes := [(ProcessOfflineState, ProcessStartingState),
                    (ProcessStartingState, ProcessStoppingState),
                    (ProcessStoppingState, ProcessOfflineState)],
        calls := [CallContainerInspect ''srv'',
                  CallStat ''/var/lib/docker/srv.log'', CallTruncate ''/var/lib/docker/srv.log'',
                  CallContainerRemove ''srv'' True False False,
                  CallContainerInspect ''srv'',
                  CallContainerStart ''srv'' 10] \<rparr>)"
    by (simp add: Start_def Start_chain_def Start_deferred_def OnBeforeStart_def Create_def
          start_refused_no_console_def world_defs server_defs step_defs)
  have early: "Start daemon_down plain_settings running_server =
     (Some (WithStack (DaemonError ''Cannot connect to the Docker daemon'')),
      running_server\<lparr> calls := [CallContainerInspect ''srv''] \<rparr>)"
    by (simp add: Start_def Start_deferred_def world_defs server_defs step_defs)
  have l1: "\<not> attach_call (last (calls (offline_server\<lparr>
        changes := [(ProcessOfflineState, ProcessStartingState),
                    (ProcessStartingState, ProcessStoppingState),
                    (ProcessStoppingState, ProcessOfflineState)],
        calls := [CallContainerInspect ''srv'',
                  CallStat ''/var/lib/docker/srv.log'', CallTruncate ''/var/lib/docker/srv.log'',
                  CallContainerRemove ''srv'' True False False,
                  CallContainerInspect ''srv'',
                  CallContainerStart ''srv'' 10] \<rparr>)))"
    by simp
  have l2: "\<not> attach_call (last (calls (running_server\<lparr> calls := [CallContainerInspect ''srv''] \<rparr>)))"
    by simp
  from Start_error_state [OF run l1]
  have a: "st (snd (Start start_refused_no_console plain_settings offline_server)) = ProcessOfflineState
   \<and> (\<exists>cs. changes (snd (Start start_refused_no_console plain_settings offline_server)) =
             cs @ [(ProcessStartingState, ProcessStoppingState),
                   (ProcessStoppingState, ProcessOfflineState)])"
    unfolding run by (simp add: new_calls_def server_defs)
  from Start_error_state [OF early l2]
  have b: "st (snd (Start daemon_down plain_settings running_server)) = st running_server
   \<and> changes (snd (Start daemon_down plain_settings running_server)) = changes running_server"
    unfolding early by (simp add: new_calls_def server_defs)
  have l1': "\<not> attach_call (last (calls (snd (Start start_refused_no_console plain_settings offline_server))))"
    unfolding run using l1 by simp
  from run early a b l1' show ?thesis by blast
qed

text \<open>
  The claim as stated fails in two ways. With the runtime unreachable, \<open>Start\<close> on an
  offline server returns the error of the inspection and has published no change at all,
  so the state was never set to stopping. And when the attach request at the end of the
  chain fails, \<open>Start\<close> returns that error with the state left at starting.
\<close>

theorem Start_error_counterexample:
  "Start daemon_down plain_settings offline_server =
     (Some (WithStack (DaemonError ''Cannot connect to the Docker daemon'')),
      offline_server\<lparr> calls := [CallContainerInspect ''srv''] \<rparr>)
   \<and> changes (offline_server\<lparr> calls := [CallContainerInspect ''srv''] \<rparr>) = []
   \<and> Start attach_refused plain_settings offline_server =
     (Some (WithStack (DaemonError ''cannot attach to container'')),
      offline_server\<lparr> st := ProcessStartingState,
        changes := [(ProcessOfflineState, ProcessStartingState)],
        calls := [CallContainerInspect ''srv'',
                  CallStat ''/var/lib/docker/srv.log'', CallTruncate ''/var/lib/docker/srv.log'',
                  CallContainerRemove ''srv'' True False False,
                  CallContainerInspect ''srv'',
                  CallContainerStart ''srv'' 10,
                  CallExists ''srv'', CallContainerLogs ''srv'', CallContainerAttach ''srv''] \<rparr>)"
  by (simp add: Start_def Start_chain_def Start_deferred_def OnBeforeStart_def Create_def
        Attach_def followOutput_def world_defs server_defs step_defs)

section \<open>Destroying the container\<close>

lemma Destroy_removes_with_force:
  "new_calls e (snd (Destroy w e)) = [CallContainerRemove (env_Id e) True False True]"
  by (auto simp: Destroy_def new_calls_def setState_def perform_def Let_def split: prod.splits)

lemma Destroy_otherwise:
  assumes "Destroy w e = (r, e')" "r \<noteq> None \<or> ContainerRemove w (calls e @ [CallContainerRemove (env_Id e) True False True]) = None"
  shows "st e' = ProcessOfflineState"
  using assms
  by (auto simp: Destroy_def new_calls_def setState_def perform_def Let_def split: prod.splits if_splits)

text \<open>
  Claim C5. \<open>Destroy\<close> sets the stopping state and removes the container with force and
  with its volumes, and a container that is not found is a success. But on that path it
  returns before it sets the offline state: for a server whose container is gone, the
  state is left at stopping.
\<close>

theorem Destroy_missing_container_stays_stopping:
  "Destroy gone_world offline_server =
     (None,
      offline_server\<lparr> st := ProcessStoppingState,
        changes := [(ProcessOfflineState, ProcessStoppingState)],
        calls := [CallContainerRemove ''srv'' True False True] \<rparr>)"
  by (simp add: Destroy_def gone_world_def calm_world_def offline_server_def setState_def perform_def)

section \<open>Creating the container\<close>

text \<open>
  Claim C6. When the container exists (the inspection succeeds), \<open>Create\<close> returns no
  error and the environment is as before but for the inspection it recorded: no image is
  pulled, no container is created, nothing is changed. A second \<open>Create\<close> after it, the
  container still existing, does the same again.
\<close>

theorem Create_existing_container:
  assumes "ContainerInspect w (calls e @ [CallContainerInspect (env_Id e)]) = Inr c"
  shows "Create w cf invoc e = (None, e\<lparr>calls := calls e @ [CallContainerInspect (env_Id e)]\<rparr>)
     \<and> (\<forall>c'. ContainerInspect w (calls e @ [CallContainerInspect (env_Id e), CallContainerInspect (env_Id e)]) = Inr c'
          \<longrightarrow> Create w cf invoc (snd (Create w cf invoc e)) =
              (None, e\<lparr>calls := calls e @ [CallContainerInspect (env_Id e), CallContainerInspect (env_Id e)]\<rparr>))"
  using assms by (auto simp: Create_def perform_def Let_def)

theorem Create_existing_container_witness:
  "ContainerInspect calm_world (calls offline_server @ [CallContainerInspect (env_Id offline_server)]) =
     Inr \<lparr> State_Running = False, LogPath = ''/var/lib/docker/srv.log'' \<rparr>
   \<and> ContainerInspect calm_world
        (calls offline_server @ [CallContainerInspect (env_Id offline_server), CallContainerInspect (env_Id offline_server)]) =
     Inr \<lparr> State_Running = False, LogPath = ''/var/lib/docker/srv.log'' \<rparr>
   \<and> Create calm_world plain_settings ''./start.sh'' offline_server =
       (None, offline_server\<lparr>calls := [CallContainerInspect ''srv'']\<rparr>)
   \<and> Create calm_world plain_settings ''./start.sh'' (snd (Create calm_world plain_settings ''./start.sh'' offline_server)) =
       (None, offline_server\<lparr>calls := [CallContainerInspect ''srv'', CallContainerInspect ''srv'']\<rparr>)"
proof -
  have i1: "ContainerInspect calm_world (calls offline_server @ [CallContainerInspect (env_Id offline_server)]) =
     Inr \<lparr> State_Running = False, LogPath = ''/var/lib/docker/srv.log'' \<rparr>"
    by (simp add: calm_world_def)
  have i2: "ContainerInspect calm_world
        (calls offline_server @ [CallContainerInspect (env_Id offline_server), CallContainerInspect (env_Id offline_server)]) =
     Inr \<lparr> State_Running = False, LogPath = ''/var/lib/docker/srv.log'' \<rparr>"
    by (simp add: calm_world_def)
  from Create_existing_container [OF i1, of plain_settings "''./start.sh''"] i1 i2
  show ?thesis by (auto simp: offline_server_def)
qed

lemma has_tag_iff: "has_tag i ts \<longleftrightarrow> i \<in> set ts"
  by (induction ts) auto

lemma tag_exists_iff: "tag_exists i images \<longleftrightarrow> (\<exists>tags \<in> set images. i \<in> set tags)"
  by (induction images) (auto simp: has_tag_iff)

lemma ensureImageExists_pull_failed:
  assumes "ImagePull w (calls e @ [CallImagePull i (registry_auth cf i)]) = Inl perr"
    and "ImageList w (calls e @ [CallImagePull i (registry_auth cf i), CallImageList]) = Inr images"
    and "ensureImageExists w cf i e = (r, e')"
  shows "calls e' = calls e @ [CallImagePull i (registry_auth cf i), CallImageList]
       \<and> (tag_exists i images \<longrightarrow> r = None \<and> (Warn, local_image_warning) \<in> set (logs e'))
       \<and> (\<not> tag_exists i images \<longrightarrow> r = Some perr)"
  using assms
  unfolding ensureImageExists_def Let_def perform_def log_line_def registry_auth_def local_image_warning_def
  by (auto split: option.splits sum.splits prod.splits if_splits)

text \<open>
  \<open>Create\<close> finds no container and the request for the pull of the image fails. If the
  list of local images has an image with a tag equal to the configured image, the
  warning is logged and the creation goes on: the container is created and \<open>Create\<close>
  returns what the runtime answers to that. If no local image has the tag, \<open>Create\<close>
  returns the error of the pull and creates no container.
\<close>

lemma Create_pull_failure_local_fallback:
  assumes "ContainerInspect w (calls e @ [CallContainerInspect (env_Id e)]) = Inl ierr"
    and "IsErrNotFound ierr"
    and "ImagePull w (calls e @ [CallContainerInspect (env_Id e),
            CallImagePull (env_image e) (registry_auth cf (env_image e))]) = Inl perr"
    and "ImageList w (calls e @ [CallContainerInspect (env_Id e),
            CallImagePull (env_image e) (registry_auth cf (env_image e)), CallImageList]) = Inr images"
    and "Create w cf invoc e = (r, e')"
  shows "((\<exists>tags \<in> set images. env_image e \<in> set tags) \<longrightarrow>
            (Warn, local_image_warning) \<in> set (logs e')
          \<and> new_calls e e' =
              [CallContainerInspect (env_Id e),
               CallImagePull (env_image e) (registry_auth cf (env_image e)),
               CallImageList,
               CallContainerCreate (container_conf cf invoc e) (container_hostConf cf) (env_Id e)]
          \<and> r = WithStack_nil (ContainerCreate w (calls e')))
       \<and> (\<not> (\<exists>tags \<in> set images. env_image e \<in> set tags) \<longrightarrow>
            r = Some (WithStack perr)
          \<and> new_calls e e' =
              [CallContainerInspect (env_Id e),
               CallImagePull (env_image e) (registry_auth cf (env_image e)),
               CallImageList])"
proof -
  let ?e1 = "e\<lparr>calls := calls e @ [CallContainerInspect (env_Id e)]\<rparr>"
  obtain r2 e2 where ens: "ensureImageExists w cf (env_image e) ?e1 = (r2, e2)"
    by (cases "ensureImageExists w cf (env_image e) ?e1") auto
  from ensureImageExists_pull_failed [of w ?e1 "env_image e" cf perr images r2 e2] assms(3,4) ens
  have c2: "calls e2 = calls e @ [CallContainerInspect (env_Id e),
               CallImagePull (env_image e) (registry_auth cf (env_image e)), CallImageList]"
    and yes: "tag_exists (env_image e) images \<Longrightarrow> r2 = None \<and> (Warn, local_image_warning) \<in> set (logs e2)"
    and no: "\<not> tag_exists (env_image e) images \<Longrightarrow> r2 = Some perr"
    by auto
  from ensureImageExists_only_io [OF ens] have io: "env_Id e2 = env_Id e" "env_image e2 = env_image e"
    by (auto simp: only_io_def)
  have cc: "container_conf cf invoc e2 = container_conf cf invoc e"
    using io by (simp add: container_conf_def)
  show ?thesis
    using assms(1,2,5) ens c2 yes no io cc
    unfolding Create_def tag_exists_iff [symmetric]
    by (auto simp: perform_def Let_def new_calls_def split: option.splits)
qed

text \<open>
  The two other ways a pull fails: when the list of the local images fails as well,
  \<open>Create\<close> returns the error of the list; when the pull breaks off while its response is
  read, \<open>Create\<close> returns that error and never asks for the local images.
\<close>

lemma Create_pull_failure_cases:
  assumes "ContainerInspect w (calls e @ [CallContainerInspect (env_Id e)]) = Inl ierr"
    and "IsErrNotFound ierr"
    and "Create w cf invoc e = (r, e')"
  shows "(ImagePull w (calls e @ [CallContainerInspect (env_Id e),
            CallImagePull (env_image e) (registry_auth cf (env_image e))]) = Inl perr
          \<and> ImageList w (calls e @ [CallContainerInspect (env_Id e),
            CallImagePull (env_image e) (registry_auth cf (env_image e)), CallImageList]) = Inl lerr \<longrightarrow>
            r = Some (WithStack lerr)
          \<and> new_calls e e' =
              [CallContainerInspect (env_Id e),
               CallImagePull (env_image e) (registry_auth cf (env_image e)),
               CallImageList])
       \<and> (ImagePull w (calls e @ [CallContainerInspect (env_Id e),
            CallImagePull (env_image e) (registry_auth cf (env_image e))]) = Inr (Some serr) \<longrightarrow>
            r = Some (WithStack serr)
          \<and> new_calls e e' =
              [CallContainerInspect (env_Id e),
               CallImagePull (env_image e) (registry_auth cf (env_image e))])"
  using assms
  unfolding Create_def ensureImageExists_def registry_auth_def
  by (auto simp: perform_def Let_def log_line_def new_calls_def
        split: option.splits sum.splits prod.splits if_splits)

text \<open>
  Claim C8. The comment of \<open>ensureImageExists\<close> promises that an error "while pulling the
  image from the source" is only reported when "the image already exists locally", and
  the path for a failed pull request does so. The path for a pull that breaks off while
  its response is read does not: here the image is among the local images, the pull runs
  into its deadline while the response is read, and \<open>Create\<close> fails with that error, with
  no warning and without a look at the local images.
\<close>

theorem Create_pull_breaks_off_no_fallback:
  "Create pull_breaks_off plain_settings ''./start.sh'' offline_server =
     (Some (WithStack DeadlineExceeded),
      offline_server\<lparr>
        calls := [CallContainerInspect ''srv'', CallImagePull ''quay.io/games/mc:latest'' []],
        logs := [(Debug, ''pulling docker image... this could take a bit of time'')] \<rparr>)
   \<and> env_image offline_server = ''quay.io/games/mc:latest''
   \<and> ImageList pull_breaks_off
         [CallContainerInspect ''srv'', CallImagePull ''quay.io/games/mc:latest'' [], CallImageList] =
       Inr [[''alpine:3''], [''quay.io/games/mc:1.15'', ''quay.io/games/mc:latest'']]"
  by (simp add: Create_def ensureImageExists_def plain_settings_def world_defs server_defs step_defs)

section \<open>Waiting for the stop\<close>

lemma Terminate_running:
  assumes "ContainerInspect w (calls e @ [CallContainerInspect (env_Id e)]) = Inr c" "State_Running c"
  shows "calls (snd (Terminate w os_Kill e)) =
           calls e @ [CallContainerInspect (env_Id e), CallContainerKill (env_Id e) ''kill'']
       \<and> fst (Terminate w os_Kill e) =
           ContainerKill w (calls e @ [CallContainerInspect (env_Id e), CallContainerKill (env_Id e) ''kill''])"
  using assms
  by (auto simp: Terminate_def perform_def Let_def setState_def os_Kill_def TrimPrefix_def TrimSuffix_def
        HasPrefix_def HasSuffix_def split: option.splits)

text \<open>
  \<open>WaitForStop\<close> calls \<open>Stop\<close> first and, \<open>Stop\<close> having returned no error, waits for the
  container to be no longer running, with the deadline given. When the wait ends because
  the container stopped, it returns no error. When the wait delivers an error on its
  error channel, it returns that error, whatever \<open>terminate\<close> is. When the context is
  done and \<open>terminate\<close> is false, it returns the deadline error and makes no further
  call. When the context is done and \<open>terminate\<close> is true, the container still running,
  it kills the container and returns what the runtime answers to the kill.
\<close>

lemma WaitForStop_after_Stop:
  assumes "Stop w e = (None, e1)"
    and "WaitForStop w seconds terminate e = (r, e')"
  shows "(ContainerWait w (calls e1 @ [CallContainerWait (env_Id e1) seconds]) = OkChan \<longrightarrow>
            r = None \<and> calls e' = calls e1 @ [CallContainerWait (env_Id e1) seconds])
       \<and> (ContainerWait w (calls e1 @ [CallContainerWait (env_Id e1) seconds]) = ErrChan werr \<longrightarrow>
            r = WithStack_nil werr \<and> calls e' = calls e1 @ [CallContainerWait (env_Id e1) seconds])
       \<and> (ContainerWait w (calls e1 @ [CallContainerWait (env_Id e1) seconds]) = CtxDone \<and> \<not> terminate \<longrightarrow>
            r = Some (WithStack DeadlineExceeded)
          \<and> calls e' = calls e1 @ [CallContainerWait (env_Id e1) seconds])
       \<and> (ContainerWait w (calls e1 @ [CallContainerWait (env_Id e1) seconds]) = CtxDone \<and> terminate
          \<and> (\<exists>c. ContainerInspect w
                    (calls e1 @ [CallContainerWait (env_Id e1) seconds, CallContainerInspect (env_Id e1)]) = Inr c
                  \<and> State_Running c) \<longrightarrow>
            calls e' = calls e1 @ [CallContainerWait (env_Id e1) seconds,
                                   CallContainerInspect (env_Id e1),
                                   CallContainerKill (env_Id e1) ''kill'']
          \<and> r = ContainerKill w (calls e'))"
proof -
  let ?e2 = "e1\<lparr>calls := calls e1 @ [CallContainerWait (env_Id e1) seconds]\<rparr>"
  have t: "calls (snd (Terminate w os_Kill ?e2)) =
           calls e1 @ [CallContainerWait (env_Id e1) seconds,
                       CallContainerInspect (env_Id e1), CallContainerKill (env_Id e1) ''kill'']
       \<and> fst (Terminate w os_Kill ?e2) =
           ContainerKill w (calls e1 @ [CallContainerWait (env_Id e1) seconds,
                       CallContainerInspect (env_Id e1), CallContainerKill (env_Id e1) ''kill''])"
    if "ContainerInspect w
          (calls e1 @ [CallContainerWait (env_Id e1) seconds, CallContainerInspect (env_Id e1)]) = Inr c"
       "State_Running c" for c
    using Terminate_running [of w ?e2 c] that by simp
  show ?thesis
    using assms t
    by (cases werr) (auto simp: WaitForStop_def perform_def Let_def split: prod.splits)
qed

text \<open>
  Claim C7. The comment of \<open>WaitForStop\<close> promises that a server that has not stopped
  when the seconds have passed is terminated if the second argument says so, and the
  branch for the finished context does so. The branch for the error channel does not
  read \<open>terminate\<close>: here the deadline passes, the wait request delivers the deadline
  error on the error channel, and \<open>WaitForStop\<close> with \<open>terminate\<close> true returns that error
  without inspecting or killing the container, which keeps running.
\<close>

theorem WaitForStop_deadline_error_no_kill:
  "WaitForStop wait_error_at_deadline 60 True running_server =
     (Some (WithStack DeadlineExceeded),
      running_server\<lparr> st := ProcessStoppingState,
        changes := [(ProcessRunningState, ProcessStoppingState)],
        calls := [CallContainerStop ''srv'' 10, CallContainerWait ''srv'' 60] \<rparr>)"
  by (simp add: WaitForStop_def Stop_def world_defs server_defs step_defs)

section \<open>The state changes of the operations\<close>

lemma trail_append: "trail s (ts @ us) = trail s ts @ trail (last (s # ts)) us"
  by (induction ts arbitrary: s) auto

lemma follows_trans: "follows ts e e1 \<Longrightarrow> follows us e1 e2 \<Longrightarrow> follows (ts @ us) e e2"
  by (auto simp: follows_def trail_append)

lemma follows_setState: "follows [s] e (setState s e)"
  by (auto simp: follows_def setState_def)

lemma follows_only_io: "only_io e e' \<Longrightarrow> follows [] e e'"
  by (auto simp: follows_def only_io_def)

lemma Terminate_follows:
  "Terminate w sig e = (r, e') \<Longrightarrow>
     follows [] e e' \<or> follows [ProcessStoppingState] e e'
     \<or> follows [ProcessStoppingState, ProcessOfflineState] e e'"
  unfolding Terminate_def
  by (auto simp: perform_def Let_def setState_def follows_def split: sum.splits if_splits option.splits)

lemma Stop_follows:
  "Stop w e = (r, e') \<Longrightarrow>
     follows [] e e' \<or> follows [ProcessStoppingState] e e'
     \<or> follows [ProcessStoppingState, ProcessOfflineState] e e'"
  unfolding Stop_def Let_def
  apply (simp split: if_splits)
   apply (erule Terminate_follows)
  apply (auto simp: perform_def Let_def setState_def follows_def SetStream_def split: sum.splits if_splits option.splits)
  done

lemma Destroy_follows:
  "Destroy w e = (r, e') \<Longrightarrow>
     follows [ProcessStoppingState] e e' \<or> follows [ProcessStoppingState, ProcessOfflineState] e e'"
  unfolding Destroy_def
  by (auto simp: perform_def Let_def setState_def follows_def split: sum.splits if_splits option.splits)

lemma WaitForStop_follows:
  assumes "WaitForStop w seconds terminate e = (r, e')"
  shows "\<exists>ts \<in> {[], [ProcessStoppingState], [ProcessStoppingState, ProcessOfflineState]}.
         \<exists>us \<in> {[], [ProcessStoppingState], [ProcessStoppingState, ProcessOfflineState]}.
           follows (ts @ us) e e'"
proof (cases "Stop w e")
  case (Pair r1 e1)
  from Stop_follows [OF Pair] obtain ts where
    ts: "ts \<in> {[], [ProcessStoppingState], [ProcessStoppingState, ProcessOfflineState]}" "follows ts e e1"
    by auto
  let ?e2 = "e1\<lparr>calls := calls e1 @ [CallContainerWait (env_Id e1) seconds]\<rparr>"
  have e2: "follows ts e ?e2" using ts(2) by (simp add: follows_def)
  show ?thesis
  proof (cases "r1 = None \<and> ContainerWait w (calls ?e2) = CtxDone \<and> terminate")
    case True
    with assms Pair have "Terminate w os_Kill ?e2 = (r, e')"
      by (auto simp: WaitForStop_def perform_def Let_def)
    from Terminate_follows [OF this] obtain us where
      us: "us \<in> {[], [ProcessStoppingState], [ProcessStoppingState, ProcessOfflineState]}" "follows us ?e2 e'"
      by auto
    from follows_trans [OF e2 us(2)] ts(1) us(1) show ?thesis by blast
  next
    case False
    with assms Pair have "e' = e1 \<or> e' = ?e2"
      by (auto simp: WaitForStop_def perform_def Let_def split: option.splits wait_result.splits if_splits)
    with ts(2) e2 have "follows (ts @ []) e e'" by auto
    with ts(1) show ?thesis by blast
  qed
qed

lemma Start_chain_follows:
  "Start_chain w cf e = (r, e') \<Longrightarrow>
     follows [ProcessStartingState] e e'
     \<or> follows [ProcessStartingState, ProcessStoppingState, ProcessOfflineState] e e'"
  unfolding Start_chain_def Let_def
  by (auto simp: perform_def Let_def Start_deferred_def setState_def follows_def only_io_def
        split: prod.splits option.splits
        dest!: OnBeforeStart_only_io Attach_frame)

lemma Start_follows:
  "Start w cf e = (r, e') \<Longrightarrow>
     follows [] e e' \<or> follows [ProcessRunningState] e e'
     \<or> follows [ProcessStartingState] e e'
     \<or> follows [ProcessStartingState, ProcessStoppingState, ProcessOfflineState] e e'"
proof -
  have chain: "follows [ProcessStartingState] e e'
     \<or> follows [ProcessStartingState, ProcessStoppingState, ProcessOfflineState] e e'"
    if "Start_chain w cf e1 = (r, e')" "st e1 = st e" "changes e1 = changes e" for e1
    using Start_chain_follows [OF that(1)] that(2,3) by (auto simp: follows_def)
  assume "Start w cf e = (r, e')"
  then show ?thesis
    unfolding Start_def
    by (auto simp: perform_def Let_def Start_deferred_def setState_def
          split: sum.splits if_splits option.splits prod.splits
          dest!: chain Attach_frame)
       (auto simp: follows_def)
qed

lemma follows_new_changes:
  "follows ts e (run_op w cf op e) \<Longrightarrow> new_changes w cf op e = trail (st e) ts"
  by (simp add: follows_def new_changes_def)

lemma run_op_follows:
  "\<exists>ts. follows ts e (run_op w cf op e) \<and>
     (case op of
        OpStart \<Rightarrow> ts \<in> {[], [ProcessRunningState], [ProcessStartingState],
                        [ProcessStartingState, ProcessStoppingState, ProcessOfflineState]}
      | OpStop \<Rightarrow> ts \<in> {[], [ProcessStoppingState], [ProcessStoppingState, ProcessOfflineState]}
      | OpTerminate sig \<Rightarrow> ts \<in> {[], [ProcessStoppingState], [ProcessStoppingState, ProcessOfflineState]}
      | OpDestroy \<Rightarrow> ts \<in> {[ProcessStoppingState], [ProcessStoppingState, ProcessOfflineState]}
      | OpAttachStreamClosed \<Rightarrow> ts = [ProcessOfflineState]
      | OpWaitForStop seconds terminate \<Rightarrow>
          (\<exists>us \<in> {[], [ProcessStoppingState], [ProcessStoppingState, ProcessOfflineState]}.
           \<exists>vs \<in> {[], [ProcessStoppingState], [ProcessStoppingState, ProcessOfflineState]}. ts = us @ vs))"
proof (cases op)
  case OpStart
  obtain r e' where "Start w cf e = (r, e')" by (cases "Start w cf e") auto
  from Start_follows [OF this] this OpStart show ?thesis by auto
next
  case OpStop
  obtain r e' where "Stop w e = (r, e')" by (cases "Stop w e") auto
  from Stop_follows [OF this] this OpStop show ?thesis by auto
next
  case (OpWaitForStop seconds terminate)
  obtain r e' where "WaitForStop w seconds terminate e = (r, e')"
    by (cases "WaitForStop w seconds terminate e") auto
  from WaitForStop_follows [OF this] this OpWaitForStop show ?thesis
    by (simp del: insert_iff) blast
next
  case (OpTerminate sig)
  obtain r e' where "Terminate w sig e = (r, e')" by (cases "Terminate w sig e") auto
  from Terminate_follows [OF this] this OpTerminate show ?thesis by auto
next
  case OpDestroy
  obtain r e' where "Destroy w e = (r, e')" by (cases "Destroy w e") auto
  from Destroy_follows [OF this] this OpDestroy show ?thesis by auto
next
  case OpAttachStreamClosed
  then show ?thesis
    by (auto simp: AttachStreamClosed_def SetStream_def setState_def follows_def)
qed

text \<open>
  Claim C1, as amended. Every state change that \<open>Start\<close>, \<open>Stop\<close>, \<open>WaitForStop\<close>,
  \<open>Terminate\<close>, \<open>Destroy\<close> or the close of the attach stream publishes is between two
  different states, and it is a legal transition or one of the changes the code makes
  without looking at the state: from offline to stopping (by \<open>WaitForStop\<close>, and by \<open>Stop\<close>,
  \<open>Terminate\<close> and \<open>Destroy\<close> when they are entered offline), and in \<open>Start\<close> the change
  from the state it is entered in to starting or to running.
\<close>

theorem state_changes_legal_or_unguarded:
  assumes "(a, b) \<in> set (new_changes w cf op e)"
  shows "a \<noteq> b \<and> (legal a b \<or> unguarded op (st e) a b)"
proof -
  from run_op_follows [of e w cf op] obtain ts where
    f: "follows ts e (run_op w cf op e)" and
    ts: "(case op of
        OpStart \<Rightarrow> ts \<in> {[], [ProcessRunningState], [ProcessStartingState],
                        [ProcessStartingState, ProcessStoppingState, ProcessOfflineState]}
      | OpStop \<Rightarrow> ts \<in> {[], [ProcessStoppingState], [ProcessStoppingState, ProcessOfflineState]}
      | OpTerminate sig \<Rightarrow> ts \<in> {[], [ProcessStoppingState], [ProcessStoppingState, ProcessOfflineState]}
      | OpDestroy \<Rightarrow> ts \<in> {[ProcessStoppingState], [ProcessStoppingState, ProcessOfflineState]}
      | OpAttachStreamClosed \<Rightarrow> ts = [ProcessOfflineState]
      | OpWaitForStop seconds terminate \<Rightarrow>
          (\<exists>us \<in> {[], [ProcessStoppingState], [ProcessStoppingState, ProcessOfflineState]}.
           \<exists>vs \<in> {[], [ProcessStoppingState], [ProcessStoppingState, ProcessOfflineState]}. ts = us @ vs))"
    by blast
  from assms follows_new_changes [OF f] have m: "(a, b) \<in> set (trail (st e) ts)" by simp
  show ?thesis
  proof (cases op)
    case OpStart
    with ts m show ?thesis by (cases "st e") (auto split: if_splits)
  next
    case OpStop
    with ts m show ?thesis by (cases "st e") (auto split: if_splits)
  next
    case (OpWaitForStop seconds terminate)
    with ts m show ?thesis by (cases "st e") (auto split: if_splits)
  next
    case (OpTerminate sig)
    with ts m show ?thesis by (cases "st e") (auto split: if_splits)
  next
    case OpDestroy
    with ts m show ?thesis by (cases "st e") (auto split: if_splits)
  next
    case OpAttachStreamClosed
    with ts m show ?thesis by (cases "st e") (auto split: if_splits)
  qed
qed

theorem state_changes_legal_or_unguarded_witness:
  "(ProcessRunningState, ProcessStoppingState) \<in> set (new_changes calm_world plain_settings OpDestroy running_server)
   \<and> ProcessRunningState \<noteq> ProcessStoppingState
   \<and> (legal ProcessRunningState ProcessStoppingState
        \<or> unguarded OpDestroy (st running_server) ProcessRunningState ProcessStoppingState)"
proof -
  have m: "(ProcessRunningState, ProcessStoppingState) \<in> set (new_changes calm_world plain_settings OpDestroy running_server)"
    by (simp add: new_changes_def Destroy_def world_defs server_defs step_defs)
  from state_changes_legal_or_unguarded [OF m] m show ?thesis by simp
qed

text \<open>
  The claim as stated fails: \<open>Destroy\<close> on an offline server publishes offline to
  stopping, and \<open>Start\<close> on an offline server whose container already runs publishes
  offline to running; neither is in the table.
\<close>

theorem state_changes_counterexample:
  "new_changes calm_world plain_settings OpDestroy offline_server =
     [(ProcessOfflineState, ProcessStoppingState), (ProcessStoppingState, ProcessOfflineState)]
   \<and> \<not> legal ProcessOfflineState ProcessStoppingState
   \<and> new_changes already_running plain_settings OpStart offline_server =
     [(ProcessOfflineState, ProcessRunningState)]
   \<and> \<not> legal ProcessOfflineState ProcessRunningState"
  by (simp add: new_changes_def Destroy_def Start_def Start_deferred_def Attach_def followOutput_def
        world_defs server_defs step_defs)

section \<open>The constructor of the installer\<close>

lemma New_parsed:
  "parses x d \<Longrightarrow> New x d = server_from_panel x (getString d [''uuid''])"
  unfolding parses_def decodes_def New_def server_from_panel_def Let_def
  by (auto split: sum.splits prod.splits option.splits)

text \<open>
  Claim C10. Two payloads that agree on \<open>uuid\<close> and \<open>service.egg\<close> and both parse give
  the same result of the constructor, whatever else they hold: the result is the server
  built from what the Panel answers for the \<open>uuid\<close>.
\<close>

theorem New_same_server_for_same_uuid:
  assumes "getString d1 [''uuid''] = getString d2 [''uuid'']"
    and "getString d1 [''service'', ''egg''] = getString d2 [''service'', ''egg'']"
    and "parses x d1" and "parses x d2"
  shows "New x d1 = New x d2 \<and> New x d1 = server_from_panel x (getString d1 [''uuid''])"
  using assms by (simp add: New_parsed)

theorem New_same_server_for_same_uuid_witness:
  "getString full_payload [''uuid''] = getString other_payload [''uuid'']
   \<and> getString full_payload [''service'', ''egg''] = getString other_payload [''service'', ''egg'']
   \<and> parses test_panel full_payload \<and> parses test_panel other_payload
   \<and> getString full_payload [''invocation''] = ''java -jar server.jar''
   \<and> getString other_payload [''invocation''] = ''rm -rf /''
   \<and> New test_panel full_payload = New test_panel other_payload
   \<and> New test_panel full_payload =
       (Some \<lparr> server = Some ''server from configuration of 0b6a1b0e-7c1d-4f5a-9c3e-2f1d5a6b7c8d'' \<rparr>, None)"
proof -
  have u: "getString full_payload [''uuid''] = getString other_payload [''uuid'']"
    by (simp add: payload_defs read_defs)
  have g: "getString full_payload [''service'', ''egg''] = getString other_payload [''service'', ''egg'']"
    by (simp add: payload_defs read_defs)
  have p1: "parses test_panel full_payload"
    by (simp add: parses_def decodes_def payload_defs read_defs test_panel_def)
  have p2: "parses test_panel other_payload"
    by (simp add: parses_def decodes_def payload_defs read_defs test_panel_def)
  have i: "getString full_payload [''invocation''] = ''java -jar server.jar''
     \<and> getString other_payload [''invocation''] = ''rm -rf /''"
    by (simp add: payload_defs read_defs)
  have s: "server_from_panel test_panel (getString full_payload [''uuid'']) =
       (Some \<lparr> server = Some ''server from configuration of 0b6a1b0e-7c1d-4f5a-9c3e-2f1d5a6b7c8d'' \<rparr>, None)"
    by (simp add: server_from_panel_def payload_defs read_defs test_panel_def)
  from New_same_server_for_same_uuid [OF u g p1 p2]
  have n: "New test_panel full_payload = New test_panel other_payload"
    and n': "New test_panel full_payload = server_from_panel test_panel (getString full_payload [''uuid''])"
    by blast+
  from n' s have n'': "New test_panel full_payload =
       (Some \<lparr> server = Some ''server from configuration of 0b6a1b0e-7c1d-4f5a-9c3e-2f1d5a6b7c8d'' \<rparr>, None)"
    by (rule trans)
  show ?thesis
    using i by (intro conjI) (rule u, rule g, rule p1, rule p2, blast, blast, rule n, rule n'')
qed

text \<open>
  Claim C9, as amended. The constructor returns a validation error exactly when \<open>uuid\<close>
  or \<open>service.egg\<close> is not a version-4 UUID. The values \<open>environment\<close> and
  \<open>allocations.mappings\<close> are required as well: with both identifiers valid, a payload
  without one of them makes the constructor fail with the error of the parser (not a
  validation error). Every other field is read with a zero default and cannot make it
  fail: payloads that agree on the two identifiers and on these two values give the
  same result.
\<close>

theorem New_failures:
  "((\<exists>msg. New x d = (None, Some (ValidationError msg))) \<longleftrightarrow>
       \<not> IsUUIDv4 (getString d [''uuid'']) \<or> \<not> IsUUIDv4 (getString d [''service'', ''egg'']))
   \<and> (IsUUIDv4 (getString d [''uuid'']) \<and> IsUUIDv4 (getString d [''service'', ''egg''])
        \<and> Get d [''environment''] = Inl err \<longrightarrow>
          New x d = (None, Some (WithStack err)))
   \<and> (IsUUIDv4 (getString d [''uuid'']) \<and> IsUUIDv4 (getString d [''service'', ''egg''])
        \<and> decodes (Unmarshal_Variables x) d [''environment'']
        \<and> Get d [''allocations'', ''mappings''] = Inl err \<longrightarrow>
          New x d = (None, Some (WithStack err)))
   \<and> (getString d' [''uuid''] = getString d [''uuid'']
        \<and> getString d' [''service'', ''egg''] = getString d [''service'', ''egg'']
        \<and> Get d' [''environment''] = Get d [''environment'']
        \<and> Get d' [''allocations'', ''mappings''] = Get d [''allocations'', ''mappings''] \<longrightarrow>
          New x d' = New x d)"
  unfolding decodes_def New_def Let_def NewValidationError_def
  by (auto split: sum.splits prod.splits option.splits)

theorem New_failures_witness:
  "New test_panel bad_uuid_payload =
     (None, Some (ValidationError ''uuid provided was not in a valid format''))
   \<and> \<not> IsUUIDv4 (getString bad_uuid_payload [''uuid''])
   \<and> New test_panel bare_payload = (None, Some (WithStack KeyPathNotFoundError))
   \<and> New test_panel no_mappings_payload = (None, Some (WithStack KeyPathNotFoundError))
   \<and> New test_panel lean_payload = New test_panel full_payload
   \<and> New test_panel full_payload =
       (Some \<lparr> server = Some ''server from configuration of 0b6a1b0e-7c1d-4f5a-9c3e-2f1d5a6b7c8d'' \<rparr>, None)"
proof -
  have bad: "\<not> IsUUIDv4 (getString bad_uuid_payload [''uuid''])"
    by (simp add: payload_defs read_defs)
  have ok_bare: "IsUUIDv4 (getString bare_payload [''uuid''])
      \<and> IsUUIDv4 (getString bare_payload [''service'', ''egg''])
      \<and> Get bare_payload [''environment''] = Inl KeyPathNotFoundError"
    by (simp add: payload_defs read_defs)
  have ok_nomap: "IsUUIDv4 (getString no_mappings_payload [''uuid''])
      \<and> IsUUIDv4 (getString no_mappings_payload [''service'', ''egg''])
      \<and> decodes (Unmarshal_Variables test_panel) no_mappings_payload [''environment'']
      \<and> Get no_mappings_payload [''allocations'', ''mappings''] = Inl KeyPathNotFoundError"
    by (simp add: payload_defs read_defs decodes_def test_panel_def)
  have same: "getString lean_payload [''uuid''] = getString full_payload [''uuid'']
      \<and> getString lean_payload [''service'', ''egg''] = getString full_payload [''service'', ''egg'']
      \<and> Get lean_payload [''environment''] = Get full_payload [''environment'']
      \<and> Get lean_payload [''allocations'', ''mappings''] = Get full_payload [''allocations'', ''mappings'']"
    by (simp add: payload_defs read_defs)
  from New_failures [where x = test_panel and d = bad_uuid_payload] bad
  obtain msg where v: "New test_panel bad_uuid_payload = (None, Some (ValidationError msg))"
    by blast
  have v': "New test_panel bad_uuid_payload =
     (None, Some (ValidationError ''uuid provided was not in a valid format''))"
    by (simp add: New_def NewValidationError_def payload_defs read_defs)
  from New_failures [where x = test_panel and d = bare_payload and err = KeyPathNotFoundError] ok_bare
  have b: "New test_panel bare_payload = (None, Some (WithStack KeyPathNotFoundError))"
    by blast
  from New_failures [where x = test_panel and d = no_mappings_payload and err = KeyPathNotFoundError] ok_nomap
  have m: "New test_panel no_mappings_payload = (None, Some (WithStack KeyPathNotFoundError))"
    by blast
  from New_failures [where x = test_panel and d = full_payload and d' = lean_payload] same
  have l: "New test_panel lean_payload = New test_panel full_payload"
    by blast
  have f: "New test_panel full_payload =
       (Some \<lparr> server = Some ''server from configuration of 0b6a1b0e-7c1d-4f5a-9c3e-2f1d5a6b7c8d'' \<rparr>, None)"
    by (simp add: New_def payload_defs read_defs test_panel_def)
  from v v' bad b m l f show ?thesis by simp
qed

text \<open>
  The claim as stated fails: a payload with valid identifiers and nothing else is
  rejected, because \<open>environment\<close> is missing; it is not read as a zero value.
\<close>

theorem New_failures_counterexample:
  "IsUUIDv4 (getString bare_payload [''uuid''])
   \<and> IsUUIDv4 (getString bare_payload [''service'', ''egg''])
   \<and> New test_panel bare_payload = (None, Some (WithStack KeyPathNotFoundError))"
  by (simp add: New_def payload_defs read_defs test_panel_def)

end
